theory Spec2Isabelle
  imports Complex_Main "HOL-Library.Sublist"
begin

section \<open>JavaScript values\<close>

text \<open>
  The sources are JavaScript (the two code-generation servers) and TypeScript (the design-tool
  plugin). Their values are embedded as follows.
  \<^item> A string is a \<open>char list\<close>. Characters are bytes, so the model covers ASCII text;
    \<open>toLowerCase\<close>, \<open>trim\<close> and the regular-expression class \<open>\s\<close> act on their ASCII part.
  \<^item> A number is a rational, and arithmetic on it is exact. JavaScript computes with binary
    floating point: the model has the code's value wherever the operation on doubles is exact
    (as on integers below \<open>2^53\<close>), and it has neither the rounding of an inexact result
    nor the overflow to an infinity. No property below rests on the difference: the general
    ones leave the numbers and their printed form symbolic, the concrete ones use small
    numbers on which doubles give the same text. Numbers of a node come from JSON, so they are finite; only
    \<open>parseFloat\<close> can produce \<open>NaN\<close> or an infinity, and its result has the type
    \<open>jsnum\<close>.
  \<^item> An optional property is an \<open>option\<close>; \<open>None\<close> is \<open>undefined\<close>.
  \<^item> An object whose keys are enumerated (a style object) is an association list in
    insertion order.
\<close>

type_synonym number = rat

datatype jsnum = NaN | PosInf | NegInf | Fin rat

abbreviation BS :: char where "BS \<equiv> CHR 0x5C"
abbreviation SQ :: char where "SQ \<equiv> CHR 0x27"
abbreviation DQ :: char where "DQ \<equiv> CHR 0x22"
abbreviation NL :: char where "NL \<equiv> CHR 0x0A"
abbreviation CR :: char where "CR \<equiv> CHR 0x0D"
abbreviation TAB :: char where "TAB \<equiv> CHR 0x09"
abbreviation BQ :: char where "BQ \<equiv> CHR 0x60"

definition isSpace :: "char \<Rightarrow> bool" where
  "isSpace c = (c \<in> set [TAB, NL, CHR 0x0B, CHR 0x0C, CR, CHR 0x20])"

definition isDigit :: "char \<Rightarrow> bool" where
  "isDigit c = (c \<in> set ''0123456789'')"

definition isLower :: "char \<Rightarrow> bool" where
  "isLower c = (c \<in> set ''abcdefghijklmnopqrstuvwxyz'')"

definition isUpper :: "char \<Rightarrow> bool" where
  "isUpper c = (c \<in> set ''ABCDEFGHIJKLMNOPQRSTUVWXYZ'')"

definition isQuote :: "char \<Rightarrow> bool" where
  "isQuote c = (c = SQ \<or> c = DQ)"

definition lower_char :: "char \<Rightarrow> char" where
  "lower_char c =
     (case map_of (zip ''ABCDEFGHIJKLMNOPQRSTUVWXYZ'' ''abcdefghijklmnopqrstuvwxyz'') c of
        Some d \<Rightarrow> d | None \<Rightarrow> c)"

definition upper_char :: "char \<Rightarrow> char" where
  "upper_char c =
     (case map_of (zip ''abcdefghijklmnopqrstuvwxyz'' ''ABCDEFGHIJKLMNOPQRSTUVWXYZ'') c of
        Some d \<Rightarrow> d | None \<Rightarrow> c)"

definition toLowerCase :: "string \<Rightarrow> string" where
  "toLowerCase s = map lower_char s"

text \<open>\<open>s.includes(t)\<close>: \<open>t\<close> occurs in \<open>s\<close> as a contiguous substring.\<close>

primrec str_includes :: "string \<Rightarrow> string \<Rightarrow> bool" where
  "str_includes [] t = (t = [])"
| "str_includes (c # cs) t = (prefix t (c # cs) \<or> str_includes cs t)"

definition startsWith :: "string \<Rightarrow> string \<Rightarrow> bool" where
  "startsWith s t = prefix t s"

definition trim :: "string \<Rightarrow> string" where
  "trim s = rev (dropWhile isSpace (rev (dropWhile isSpace s)))"

text \<open>\<open>s.replace(/c/g, r)\<close> for a single character \<open>c\<close>.\<close>

definition replaceAll :: "char \<Rightarrow> string \<Rightarrow> string \<Rightarrow> string" where
  "replaceAll c r s = concat (map (\<lambda>d. if d = c then r else [d]) s)"

text \<open>\<open>s.replace(/^['"]+|['"]+$/g, '')\<close>: the leading and the trailing run of quotes go.\<close>

definition stripQuotes :: "string \<Rightarrow> string" where
  "stripQuotes s = rev (dropWhile isQuote (rev (dropWhile isQuote s)))"

text \<open>\<open>s.split(c)\<close>; the result is never empty.\<close>

primrec split :: "char \<Rightarrow> string \<Rightarrow> string list" where
  "split c [] = [[]]"
| "split c (d # ds) =
     (if d = c then [] # split c ds
      else (case split c ds of [] \<Rightarrow> [[d]] | w # ws \<Rightarrow> (d # w) # ws))"

primrec join :: "string \<Rightarrow> string list \<Rightarrow> string" where
  "join sep [] = []"
| "join sep (w # ws) = w @ concat (map (\<lambda>v. sep @ v) ws)"

subsection \<open>Printing numbers\<close>

definition digit_char :: "nat \<Rightarrow> char" where
  "digit_char d = ''0123456789'' ! d"

fun show_nat :: "nat \<Rightarrow> string" where
  "show_nat n = (if n < 10 then [digit_char n] else show_nat (n div 10) @ [digit_char (n mod 10)])"

declare show_nat.simps [simp del]

fun frac_digits :: "nat \<Rightarrow> rat \<Rightarrow> string" where
  "frac_digits k f =
     (if k = 0 \<or> f = 0 then []
      else digit_char (nat \<lfloor>f * 10\<rfloor>) # frac_digits (k - 1) (f * 10 - of_int \<lfloor>f * 10\<rfloor>))"

declare frac_digits.simps [simp del]

text \<open>
  \<open>String(q)\<close>, also what a template literal prints. The model prints the decimal
  expansion, up to 20 fractional digits. That is JavaScript's text for the integers up to
  \<open>2^53\<close> and for the decimal numbers of at most 15 significant digits from \<open>1e-6\<close> on.
  Elsewhere JavaScript prints the shortest digits that read back as the same double, or
  the exponent notation, and the model does not.
\<close>

definition num_str :: "number \<Rightarrow> string" where
  "num_str q =
     (let a = \<bar>q\<bar>; i = \<lfloor>a\<rfloor>; f = a - of_int i
      in (if q < 0 then ''-'' else []) @ show_nat (nat i) @
         (if f = 0 then [] else ''.'' @ frac_digits 20 f))"

text \<open>A number that may be \<open>undefined\<close> prints as the word.\<close>

definition opt_num_str :: "number option \<Rightarrow> string" where
  "opt_num_str v = (case v of None \<Rightarrow> ''undefined'' | Some q \<Rightarrow> num_str q)"

text \<open>\<open>Math.round\<close>: halves go up.\<close>

definition Math_round :: "number \<Rightarrow> number" where
  "Math_round q = of_int \<lfloor>q + 1 / 2\<rfloor>"

subsection \<open>parseFloat\<close>

fun digits_val :: "string \<Rightarrow> nat" where
  "digits_val ds = foldl (\<lambda>acc d. 10 * acc + (of_char d - 48)) 0 ds"

text \<open>The exponent part \<open>[eE][+-]?[0-9]+\<close> at the head of a string, when there is one.\<close>

definition exponent_part :: "string \<Rightarrow> int" where
  "exponent_part s =
     (case s of
        [] \<Rightarrow> 0
      | e # t \<Rightarrow>
          if e = CHR ''e'' \<or> e = CHR ''E'' then
            (case t of
               [] \<Rightarrow> 0
             | sg # u \<Rightarrow>
                 if sg = CHR ''-'' then
                   (if takeWhile isDigit u = [] then 0 else - int (digits_val (takeWhile isDigit u)))
                 else if sg = CHR ''+'' then int (digits_val (takeWhile isDigit u))
                 else int (digits_val (takeWhile isDigit t)))
          else 0)"

text \<open>
  \<open>parseFloat\<close>: leading white space is skipped, then the longest prefix that is a decimal
  literal is read; there is none exactly when the result is \<open>NaN\<close>. The value of the
  literal is exact here, where the code has the nearest double, and an infinity once the
  literal exceeds the doubles.
\<close>

definition parseFloat :: "string \<Rightarrow> jsnum" where
  "parseFloat s =
     (let t = dropWhile isSpace s;
          neg = (case t of [] \<Rightarrow> False | c # _ \<Rightarrow> c = CHR ''-'');
          u = (case t of [] \<Rightarrow> t | c # r \<Rightarrow> if c = CHR ''-'' \<or> c = CHR ''+'' then r else t)
      in if prefix ''Infinity'' u then (if neg then NegInf else PosInf)
         else
           let ip = takeWhile isDigit u;
               r1 = dropWhile isDigit u;
               afterDot = (case r1 of [] \<Rightarrow> None | c # r \<Rightarrow> if c = CHR ''.'' then Some r else None);
               fp = (case afterDot of None \<Rightarrow> [] | Some r \<Rightarrow> takeWhile isDigit r);
               r2 = (case afterDot of None \<Rightarrow> r1 | Some r \<Rightarrow> dropWhile isDigit r)
           in if ip = [] \<and> fp = [] then NaN
              else
                let m = of_nat (digits_val ip) + of_nat (digits_val fp) / 10 ^ length fp;
                    v = m * (10 powi exponent_part r2)
                in Fin (if neg then - v else v))"

section \<open>The scene tree\<close>

text \<open>
  The node of the plugin's \<open>ExtractedData\<close> interface, with the properties the servers
  read. The field names are the source's with a prefix. A property that the servers test
  against \<open>undefined\<close> is optional here even where the interface requires it. The font
  weight may be a number or a string, a line height or a letter spacing may be a number or
  an object with \<open>value\<close> and \<open>unit\<close>, as the servers test for both.
\<close>

datatype rgb = RGB (rgb_r: number) (rgb_g: number) (rgb_b: number)

record fill =
  f_type :: string
  f_color :: "rgb option"
  f_opacity :: "number option"

record stroke =
  s_type :: string
  s_color :: "rgb option"
  s_opacity :: "number option"
  s_weight :: "number option"

record effect =
  e_type :: string
  e_visible :: "bool option"
  e_color :: "rgb option"
  e_offset :: "(number option \<times> number option) option"
  e_radius :: "number option"

datatype jsval = JNum number | JStr string

datatype measure_val = MNum number | MObj "number option" "string option"

record props =
  n_name :: string
  n_type :: string
  n_x :: "number option"
  n_y :: "number option"
  n_width :: number
  n_height :: number
  n_rotation :: "number option"
  n_cornerRadius :: "number option"
  n_fills :: "fill list"
  n_strokes :: "stroke list"
  n_effects :: "effect list"
  n_opacity :: "number option"
  n_visible :: "bool option"
  n_svg :: "string option"
  n_svgBase64 :: "string option"
  n_image :: "string option"
  n_textContent :: "string option"
  n_fontSize :: "number option"
  n_fontFamily :: "string option"
  n_fontWeight :: "jsval option"
  n_letterSpacing :: "measure_val option"
  n_lineHeight :: "measure_val option"
  n_textAlign :: "string option"
  n_textAlignHorizontal :: "string option"
  n_layoutMode :: "string option"
  n_gap :: "number option"
  n_paddingLeft :: "number option"
  n_paddingRight :: "number option"
  n_paddingTop :: "number option"
  n_paddingBottom :: "number option"

datatype node = Node (props_of: props) (children: "node list option")

text \<open>A frame with no optional property, from which the examples are built.\<close>

definition blank :: props where
  "blank = \<lparr> n_name = [], n_type = ''FRAME'', n_x = Some 0, n_y = Some 0, n_width = 0,
     n_height = 0, n_rotation = None, n_cornerRadius = None, n_fills = [], n_strokes = [],
     n_effects = [], n_opacity = Some 1, n_visible = Some True, n_svg = None,
     n_svgBase64 = None, n_image = None, n_textContent = None, n_fontSize = None,
     n_fontFamily = None, n_fontWeight = None, n_letterSpacing = None, n_lineHeight = None,
     n_textAlign = None, n_textAlignHorizontal = None, n_layoutMode = None, n_gap = None,
     n_paddingLeft = None, n_paddingRight = None, n_paddingTop = None,
     n_paddingBottom = None \<rparr>"

text \<open>Truthiness of the optional values the servers test with \<open>if (v)\<close>, \<open>v || d\<close>, \<open>!v\<close>.\<close>

definition truthy_str :: "string option \<Rightarrow> bool" where
  "truthy_str v = (case v of None \<Rightarrow> False | Some s \<Rightarrow> s \<noteq> [])"

definition truthy_num :: "number option \<Rightarrow> bool" where
  "truthy_num v = (case v of None \<Rightarrow> False | Some q \<Rightarrow> q \<noteq> 0)"

text \<open>
  The value of an optional property where the source reads it: a string as a template
  prints it, a number that was tested to be present.
\<close>

definition str_of :: "string option \<Rightarrow> string" where
  "str_of v = (case v of None \<Rightarrow> ''undefined'' | Some s \<Rightarrow> s)"

definition num_of :: "number option \<Rightarrow> number" where
  "num_of v = (case v of None \<Rightarrow> 0 | Some q \<Rightarrow> q)"

definition truthy_bool :: "bool option \<Rightarrow> bool" where
  "truthy_bool v = (v = Some True)"

definition truthy_val :: "jsval option \<Rightarrow> bool" where
  "truthy_val v = (case v of None \<Rightarrow> False | Some (JNum q) \<Rightarrow> q \<noteq> 0 | Some (JStr s) \<Rightarrow> s \<noteq> [])"

definition truthy_measure :: "measure_val option \<Rightarrow> bool" where
  "truthy_measure v = (case v of None \<Rightarrow> False | Some (MNum q) \<Rightarrow> q \<noteq> 0 | Some (MObj _ _) \<Rightarrow> True)"

section \<open>The semantic classifier\<close>

text \<open>\<open>detectComponentType\<close> of the widget-emitting server; \<open>None\<close> is its \<open>null\<close>.\<close>

definition detectComponentType :: "node \<Rightarrow> string option" where
  "detectComponentType node =
     (let name = toLowerCase (n_name (props_of node)); ty = n_type (props_of node)
      in if (str_includes name ''button'' \<or> str_includes name ''btn'') \<and>
            (ty = ''FRAME'' \<or> ty = ''INSTANCE'' \<or> ty = ''GROUP'' \<or> ty = ''COMPONENT'')
         then Some ''Button''
         else if str_includes name ''input'' \<or> str_includes name ''field'' \<or>
                 str_includes name ''search''
         then Some ''TextField''
         else if str_includes name ''checkbox'' \<or> str_includes name ''tick''
         then Some ''Checkbox''
         else if ty = ''TEXT'' then Some ''Typography''
         else None)"

text \<open>The two tests of the classifier: a word in the lower-cased name, a container type.\<close>

definition name_has :: "node \<Rightarrow> string \<Rightarrow> bool" where
  "name_has node w = str_includes (toLowerCase (n_name (props_of node))) w"

definition container_type :: "node \<Rightarrow> bool" where
  "container_type node =
     (n_type (props_of node) \<in> set [''FRAME'', ''INSTANCE'', ''GROUP'', ''COMPONENT''])"

section \<open>Font weights\<close>

text \<open>\<open>convertFontWeight\<close> of the later plugin: a style name to a CSS weight.\<close>

definition convertFontWeight :: "string \<Rightarrow> jsnum" where
  "convertFontWeight style =
     (if style = [] then Fin 400
      else
        let styleLower = toLowerCase style; numeric = parseFloat style
        in if numeric \<noteq> NaN then numeric
           else if str_includes styleLower ''thin'' \<or> str_includes styleLower ''100'' then Fin 100
           else if str_includes styleLower ''extralight'' \<or> str_includes styleLower ''ultralight'' \<or>
                   str_includes styleLower ''200'' then Fin 200
           else if str_includes styleLower ''light'' \<or> str_includes styleLower ''300'' then Fin 300
           else if str_includes styleLower ''regular'' \<or> str_includes styleLower ''normal'' \<or>
                   str_includes styleLower ''400'' then Fin 400
           else if str_includes styleLower ''medium'' \<or> str_includes styleLower ''500'' then Fin 500
           else if str_includes styleLower ''semibold'' \<or> str_includes styleLower ''demi'' \<or>
                   str_includes styleLower ''600'' then Fin 600
           else if str_includes styleLower ''bold'' \<or> str_includes styleLower ''700'' then Fin 700
           else if str_includes styleLower ''extrabold'' \<or> str_includes styleLower ''ultrabold'' \<or>
                   str_includes styleLower ''800'' then Fin 800
           else if str_includes styleLower ''black'' \<or> str_includes styleLower ''heavy'' \<or>
                   str_includes styleLower ''900'' then Fin 900
           else Fin 400)"

text \<open>
  \<open>parseFloat(s) || d\<close>: \<open>NaN\<close> and zero are falsy. The earlier plugin computes a text
  node's weight this way from the style name, with no vocabulary.
\<close>

definition parseFloat_or :: "string \<Rightarrow> number \<Rightarrow> jsnum" where
  "parseFloat_or s d = (case parseFloat s of NaN \<Rightarrow> Fin d | Fin q \<Rightarrow> (if q = 0 then Fin d else Fin q) | v \<Rightarrow> v)"

text \<open>
  The \<open>fontWeight\<close> property that \<open>extractTextProperties\<close> computes, in each plugin, from
  \<open>node.fontName\<close>: \<open>None\<close> is \<open>figma.mixed\<close>, and the style of a font name is a string.
\<close>

definition fontWeight_later :: "string option \<Rightarrow> jsnum option" where
  "fontWeight_later fontName_style = map_option convertFontWeight fontName_style"

definition fontWeight_earlier :: "string option \<Rightarrow> jsnum option" where
  "fontWeight_earlier fontName_style = map_option (\<lambda>s. parseFloat_or s 400) fontName_style"

text \<open>A lower-cased style name contains one of the words of a list.\<close>

definition has_any :: "string \<Rightarrow> string list \<Rightarrow> bool" where
  "has_any l ws = list_ex (str_includes l) ws"

text \<open>The words that \<open>convertFontWeight\<close> tests before it tests for \<open>semibold\<close>.\<close>

definition lighter_words :: "string list" where
  "lighter_words =
     [''thin'', ''100'', ''extralight'', ''ultralight'', ''200'', ''light'', ''300'',
      ''regular'', ''normal'', ''400'', ''medium'', ''500'']"

definition semibold_words :: "string list" where
  "semibold_words = [''semibold'', ''demi'', ''600'']"

definition bold_words :: "string list" where
  "bold_words = [''bold'', ''700'']"

definition heavier_words :: "string list" where
  "heavier_words = [''extrabold'', ''ultrabold'', ''800'', ''black'', ''heavy'', ''900'']"

section \<open>Escaping text\<close>

text \<open>\<open>escapeJSXText\<close>: five replacements in sequence, the backslash first.\<close>

definition escapeJSXText :: "string \<Rightarrow> string" where
  "escapeJSXText text =
     (if text = [] then []
      else replaceAll TAB [BS, CHR ''t'']
             (replaceAll CR [BS, CHR ''r'']
               (replaceAll NL [BS, CHR ''n'']
                 (replaceAll SQ [BS, SQ]
                   (replaceAll BS [BS, BS] text)))))"

text \<open>
  The escaped text is placed between single quotes in a JSX expression, so it is read back
  as the body of a single-quoted JavaScript string literal. \<open>unescapeJS\<close> is that reading,
  for the escape sequences of the escaper (and the double quote's); \<open>None\<close> is a body that
  is no literal: a raw quote or line terminator, or another escape sequence. It is the
  rule of the target language; the repository has no function for it.
\<close>

fun unescapeJS :: "string \<Rightarrow> string option" where
  "unescapeJS [] = Some []"
| "unescapeJS [c] = (if c = BS \<or> c = SQ \<or> c = NL \<or> c = CR then None else Some [c])"
| "unescapeJS (c # d # ds) =
     (if c = BS then
        (if d = BS then map_option ((#) BS) (unescapeJS ds)
         else if d = SQ then map_option ((#) SQ) (unescapeJS ds)
         else if d = DQ then map_option ((#) DQ) (unescapeJS ds)
         else if d = CHR ''n'' then map_option ((#) NL) (unescapeJS ds)
         else if d = CHR ''r'' then map_option ((#) CR) (unescapeJS ds)
         else if d = CHR ''t'' then map_option ((#) TAB) (unescapeJS ds)
         else None)
      else if c = SQ \<or> c = NL \<or> c = CR then None
      else map_option ((#) c) (unescapeJS (d # ds)))"

text \<open>What the five replacements do to one character.\<close>

definition esc_char :: "char \<Rightarrow> string" where
  "esc_char c =
     (if c = BS then [BS, BS] else if c = SQ then [BS, SQ] else if c = NL then [BS, CHR ''n'']
      else if c = CR then [BS, CHR ''r''] else if c = TAB then [BS, CHR ''t''] else [c])"

section \<open>System fonts\<close>

definition systemFonts :: "string list" where
  "systemFonts =
     [''arial'', ''helvetica'', ''times'', ''courier'', ''verdana'', ''georgia'',
      ''palatino'', ''garamond'', ''bookman'', ''comic sans ms'', ''trebuchet ms'',
      ''arial black'', ''impact'', ''system'', ''monospace'', ''serif'', ''sans-serif'',
      ''cursive'', ''fantasy'', ''-apple-system'', ''blinkmacsystemfont'', ''segoe ui'',
      ''roboto'', ''oxygen'', ''ubuntu'', ''cantarell'', ''fira sans'', ''droid sans'',
      ''helvetica neue'']"

definition isSystemFont :: "string \<Rightarrow> bool" where
  "isSystemFont fontName =
     list_ex (\<lambda>sysFont. str_includes (toLowerCase fontName) (toLowerCase sysFont)) systemFonts"

text \<open>The cleaning of a font family: quotes go, the first comma-separated name stays.\<close>

definition cleanFont :: "string \<Rightarrow> string" where
  "cleanFont fontFamily =
     (case split (CHR '','') (trim (replaceAll DQ [] (replaceAll SQ [] (stripQuotes fontFamily)))) of
        [] \<Rightarrow> []
      | first # _ \<Rightarrow> trim first)"

text \<open>\<open>fonts.add\<close> on a JavaScript \<open>Set\<close>, which keeps insertion order.\<close>

definition set_add :: "string \<Rightarrow> string list \<Rightarrow> string list" where
  "set_add f fonts = (if f \<in> set fonts then fonts else fonts @ [f])"

fun traverse :: "node \<Rightarrow> string list \<Rightarrow> string list" where
  "traverse (Node p cs) fonts =
     (let fonts1 =
            (if truthy_str (n_fontFamily p) then
               (let cf = cleanFont (str_of (n_fontFamily p))
                in if cf \<noteq> [] \<and> \<not> isSystemFont cf then set_add cf fonts
                   else fonts)
             else fonts)
      in case cs of None \<Rightarrow> fonts1 | Some ch \<Rightarrow> fold traverse ch fonts1)"

definition extractFontsFromData :: "node list \<Rightarrow> string list" where
  "extractFontsFromData data = fold traverse data []"

section \<open>Style objects\<close>

text \<open>
  A style value is a string or a number. A style object keeps its keys in insertion order:
  an assignment to a key that is present replaces the value in place, a spread assigns
  every key of its source in turn, and \<open>delete\<close> removes a key.
\<close>

definition jsnum_str :: "jsnum \<Rightarrow> string" where
  "jsnum_str v =
     (case v of NaN \<Rightarrow> ''NaN'' | PosInf \<Rightarrow> ''Infinity'' | NegInf \<Rightarrow> ''-Infinity''
      | Fin q \<Rightarrow> num_str q)"

datatype sval = SStr string | SNum jsnum

type_synonym style = "(string \<times> sval) list"

definition sval_str :: "sval \<Rightarrow> string" where
  "sval_str v = (case v of SStr s \<Rightarrow> s | SNum q \<Rightarrow> jsnum_str q)"

definition obj_set :: "string \<Rightarrow> sval \<Rightarrow> style \<Rightarrow> style" where
  "obj_set k v st =
     (if k \<in> set (map fst st) then map (\<lambda>kv. if fst kv = k then (k, v) else kv) st
      else st @ [(k, v)])"

definition obj_spread :: "style \<Rightarrow> style \<Rightarrow> style" where
  "obj_spread src st = fold (\<lambda>kv. obj_set (fst kv) (snd kv)) src st"

definition obj_delete :: "string \<Rightarrow> style \<Rightarrow> style" where
  "obj_delete k st = filter (\<lambda>kv. fst kv \<noteq> k) st"

definition obj_get :: "string \<Rightarrow> style \<Rightarrow> sval option" where
  "obj_get k st = map_of st k"

definition sq :: "string \<Rightarrow> string" where
  "sq s = SQ # s @ [SQ]"

definition dq :: "string \<Rightarrow> string" where
  "dq s = DQ # s @ [DQ]"

definition sp :: "nat \<Rightarrow> string" where
  "sp n = replicate n (CHR '' '')"

definition px :: "number \<Rightarrow> string" where
  "px q = num_str q @ ''px''"

text \<open>\<open>v || d\<close> on an optional number.\<close>

definition num_or :: "number option \<Rightarrow> number \<Rightarrow> number" where
  "num_or v d = (case v of None \<Rightarrow> d | Some q \<Rightarrow> if q = 0 then d else q)"

text \<open>
  \<open>rgbToColor\<close>: the same function in both servers. The opacity defaults to 1 when it is
  \<open>undefined\<close>.
\<close>

definition rgbToColor :: "rgb option \<Rightarrow> number option \<Rightarrow> string" where
  "rgbToColor rgb opacity =
     (case rgb of
        None \<Rightarrow> ''transparent''
      | Some c \<Rightarrow>
          let r = Math_round (rgb_r c * 255);
              g = Math_round (rgb_g c * 255);
              b = Math_round (rgb_b c * 255);
              a = (case opacity of None \<Rightarrow> 1 | Some v \<Rightarrow> v)
          in if a < 1
             then ''rgba('' @ num_str r @ '', '' @ num_str g @ '', '' @ num_str b @ '', '' @
                  num_str a @ '')''
             else ''rgb('' @ num_str r @ '', '' @ num_str g @ '', '' @ num_str b @ '')'')"

section \<open>The server with node identifiers\<close>

text \<open>
  The server of \<open>/generate-component\<close>: \<open>generateComponentCode\<close> with its inner function
  \<open>generateNodeComponent\<close>, and the helpers they call.
\<close>

fun toCamelCase :: "string \<Rightarrow> string" where
  "toCamelCase [] = []"
| "toCamelCase [c] = [c]"
| "toCamelCase (c # d # ds) =
     (if c = CHR ''-'' \<and> isLower d then upper_char d # toCamelCase ds
      else c # toCamelCase (d # ds))"

definition getBackgroundStyle :: "fill list \<Rightarrow> style" where
  "getBackgroundStyle fills =
     (case fills of
        [] \<Rightarrow> []
      | fill # _ \<Rightarrow>
          if f_type fill = ''SOLID'' \<and> f_color fill \<noteq> None
          then [(''backgroundColor'', SStr (rgbToColor (f_color fill) (f_opacity fill)))]
          else [])"

definition getBorderStyle :: "stroke list \<Rightarrow> style" where
  "getBorderStyle strokes =
     (case strokes of
        [] \<Rightarrow> []
      | stroke # _ \<Rightarrow>
          if s_type stroke = ''SOLID'' \<and> s_color stroke \<noteq> None
          then [(''borderWidth'', SStr (px (num_or (s_weight stroke) 1))),
                (''borderStyle'', SStr ''solid''),
                (''borderColor'', SStr (rgbToColor (s_color stroke) (s_opacity stroke)))]
          else [])"

text \<open>One visible drop shadow as CSS; an absent colour is black at a quarter alpha.\<close>

definition shadow_css :: "effect \<Rightarrow> string" where
  "shadow_css e =
     (let offsetX = num_or (case e_offset e of None \<Rightarrow> None | Some xy \<Rightarrow> fst xy) 0;
          offsetY = num_or (case e_offset e of None \<Rightarrow> None | Some xy \<Rightarrow> snd xy) 0;
          blur = num_or (e_radius e) 0;
          color = (if e_color e \<noteq> None then rgbToColor (e_color e) (Some 1)
                   else ''rgba(0, 0, 0, 0.25)'')
      in px offsetX @ '' '' @ px offsetY @ '' '' @ px blur @ '' '' @ color)"

definition visible_drop_shadow :: "effect \<Rightarrow> bool" where
  "visible_drop_shadow e = (e_type e = ''DROP_SHADOW'' \<and> truthy_bool (e_visible e))"

definition getEffectStyles :: "effect list \<Rightarrow> style" where
  "getEffectStyles effects =
     (let shadows = map shadow_css (filter visible_drop_shadow effects)
      in if shadows \<noteq> [] then [(''boxShadow'', SStr (join '', '' shadows))] else [])"

text \<open>
  The position of a node relative to the origin its parent passes down. The subtraction is
  the exact one; the code's is that of doubles, which is the same on integer coordinates.
\<close>

definition relativeX :: "props \<Rightarrow> bool \<Rightarrow> number \<Rightarrow> number" where
  "relativeX p isRoot parentX =
     (if isRoot then 0 else (case n_x p of Some x \<Rightarrow> x - parentX | None \<Rightarrow> 0))"

definition relativeY :: "props \<Rightarrow> bool \<Rightarrow> number \<Rightarrow> number" where
  "relativeY p isRoot parentY =
     (if isRoot then 0 else (case n_y p of Some y \<Rightarrow> y - parentY | None \<Rightarrow> 0))"

definition hasSVG :: "props \<Rightarrow> bool" where
  "hasSVG p = (truthy_str (n_svg p) \<or> truthy_str (n_svgBase64 p))"

definition shouldUseSVG :: "props \<Rightarrow> bool" where
  "shouldUseSVG p = (hasSVG p \<and> n_type p \<noteq> ''TEXT'')"

definition auto_layout :: "props \<Rightarrow> bool" where
  "auto_layout p = (n_layoutMode p = Some ''HORIZONTAL'' \<or> n_layoutMode p = Some ''VERTICAL'')"

definition set_if :: "number option \<Rightarrow> string \<Rightarrow> style \<Rightarrow> style" where
  "set_if v k st = (if truthy_num v then obj_set k (SStr (px (num_of v))) st else st)"

text \<open>The object \<open>styles\<close> of a node, before its keys are normalised.\<close>

definition styles_of :: "props \<Rightarrow> bool \<Rightarrow> number \<Rightarrow> number \<Rightarrow> style" where
  "styles_of p isRoot parentX parentY =
     (let s0 = [(''width'', SStr (px (n_width p))),
                (''height'', SStr (px (n_height p))),
                (''position'', SStr (if isRoot then ''relative'' else ''absolute'')),
                (''opacity'', SNum (Fin (case n_opacity p of Some v \<Rightarrow> v | None \<Rightarrow> 1))),
                (''display'', SStr (if n_visible p \<noteq> Some False then ''block'' else ''none''))];
          s1 = obj_spread
                 (if (hasSVG p \<and> shouldUseSVG p) \<or> n_type p = ''TEXT'' then []
                  else getBackgroundStyle (n_fills p)) s0;
          s2 = obj_spread (getBorderStyle (n_strokes p)) s1;
          s3 = obj_spread (getEffectStyles (n_effects p)) s2;
          s4 = (if \<not> isRoot
                then obj_set ''top'' (SStr (px (relativeY p isRoot parentY)))
                       (obj_set ''left'' (SStr (px (relativeX p isRoot parentX))) s3)
                else s3);
          s5 = set_if (n_cornerRadius p) ''borderRadius'' s4
      in if auto_layout p then
           obj_delete ''top'' (obj_delete ''left''
             (set_if (n_paddingBottom p) ''paddingBottom''
               (set_if (n_paddingTop p) ''paddingTop''
                 (set_if (n_paddingRight p) ''paddingRight''
                   (set_if (n_paddingLeft p) ''paddingLeft''
                     (set_if (n_gap p) ''gap''
                       (obj_set ''flexDirection''
                          (SStr (if n_layoutMode p = Some ''HORIZONTAL'' then ''row'' else ''column''))
                          (obj_set ''position'' (SStr ''relative'')
                             (obj_set ''display'' (SStr ''flex'') s5)))))))))
         else s5)"

text \<open>Keys to camel case; the empty string is dropped.\<close>

definition normalize :: "style \<Rightarrow> style" where
  "normalize st =
     fold (\<lambda>kv acc. if snd kv \<noteq> SStr [] then obj_set (toCamelCase (fst kv)) (snd kv) acc else acc)
       st []"

text \<open>The lines \<open>key: 'value'\<close> of a style, each after \<open>pad\<close>, joined by a comma and a newline.\<close>

definition style_lines :: "string \<Rightarrow> style \<Rightarrow> string" where
  "style_lines pad st =
     join ('','' @ [NL])
       (map (\<lambda>kv. pad @ fst kv @ '': '' @ sq (replaceAll SQ [BS, SQ] (sval_str (snd kv))))
          (normalize st))"

definition textStyles :: "props \<Rightarrow> style" where
  "textStyles p =
     (let t0 = [];
          t1 = (if truthy_num (n_fontSize p)
                then obj_set ''fontSize'' (SStr (px (num_of (n_fontSize p)))) t0 else t0);
          t2 = (if truthy_str (n_fontFamily p)
                then obj_set ''fontFamily'' (SStr (replaceAll SQ [] (str_of (n_fontFamily p)))) t1
                else t1);
          t3 = (if truthy_val (n_fontWeight p)
                then obj_set ''fontWeight''
                       (SNum (Fin (case n_fontWeight p of Some (JNum q) \<Rightarrow> q | _ \<Rightarrow> 400))) t2
                else t2);
          t4 = (if truthy_str (n_textAlign p)
                then obj_set ''textAlign'' (SStr (toLowerCase (str_of (n_textAlign p)))) t3 else t3)
      in case n_fills p of
           [] \<Rightarrow> t4
         | fill # _ \<Rightarrow>
             if f_color fill \<noteq> None
             then obj_set ''color'' (SStr (rgbToColor (f_color fill) (f_opacity fill))) t4
             else t4)"

definition img_tag :: "string \<Rightarrow> string \<Rightarrow> string \<Rightarrow> string" where
  "img_tag indent src alt =
     [NL] @ indent @ sp 8 @ ''<img src='' @ dq src @ '' alt='' @ dq alt @
     '' style={{ width: '' @ sq ''100%'' @ '', height: '' @ sq ''100%'' @
     '', objectFit: '' @ sq ''contain'' @ '' }} />''"

text \<open>\<open>s.replace(/\s+/g, ' ')\<close>: every run of white space becomes one space.\<close>

fun collapse_ws :: "string \<Rightarrow> string" where
  "collapse_ws [] = []"
| "collapse_ws [c] = (if isSpace c then '' '' else [c])"
| "collapse_ws (c # d # ds) =
     (if isSpace c then (if isSpace d then collapse_ws (d # ds) else CHR '' '' # collapse_ws (d # ds))
      else c # collapse_ws (d # ds))"

definition escapeSvg :: "string \<Rightarrow> string" where
  "escapeSvg svgContent =
     trim (collapse_ws (replaceAll NL '' ''
       (replaceAll (CHR ''$'') [BS, CHR ''$'']
         (replaceAll BQ [BS, BQ] (replaceAll BS [BS, BS] svgContent)))))"

definition base64_prefix :: string where
  "base64_prefix = ''data:image/svg+xml;base64,''"

text \<open>
  The content for a node rendered from its vector export. \<open>dec\<close> is the platform's
  decoding of base64 to UTF-8 text, a parameter; \<open>None\<close> is its throwing.
\<close>

definition svg_content :: "(string \<Rightarrow> string option) \<Rightarrow> props \<Rightarrow> string \<Rightarrow> string" where
  "svg_content dec p indent =
     (let svgContent0 = (if truthy_str (n_svg p) then str_of (n_svg p) else str_of (n_svgBase64 p));
          decoded = (if startsWith svgContent0 base64_prefix
                     then dec (drop (length base64_prefix) svgContent0) else Some svgContent0)
      in case decoded of
           None \<Rightarrow> img_tag indent svgContent0 (n_name p)
         | Some svgContent \<Rightarrow>
             if svgContent \<noteq> [] \<and> \<not> startsWith svgContent ''data:'' then
               [NL] @ indent @ sp 8 @ ''<div'' @ [NL] @ indent @ sp 10 @
               ''style={{ width: '' @ sq ''100%'' @ '', height: '' @ sq ''100%'' @
               '', display: '' @ sq ''flex'' @ '', alignItems: '' @ sq ''center'' @
               '', justifyContent: '' @ sq ''center'' @ '', overflow: '' @ sq ''hidden'' @
               '' }}'' @ [NL] @ indent @ sp 10 @ ''dangerouslySetInnerHTML={{ __html: '' @
               [BQ] @ escapeSvg svgContent @ [BQ] @ '' }}'' @ [NL] @ indent @ sp 8 @ ''/>''
             else if svgContent \<noteq> [] \<and> startsWith svgContent ''data:'' then
               img_tag indent svgContent (n_name p)
             else [])"

text \<open>The variable \<open>content\<close>: text before vector before raster.\<close>

definition content_of :: "(string \<Rightarrow> string option) \<Rightarrow> props \<Rightarrow> string \<Rightarrow> string" where
  "content_of dec p indent =
     (if n_type p = ''TEXT'' \<and> truthy_str (n_textContent p) then
        (let textStyleStr = style_lines (indent @ sp 10) (textStyles p);
             text = replaceAll SQ [BS, SQ] (str_of (n_textContent p))
         in if textStyleStr \<noteq> [] then
              [NL] @ indent @ sp 8 @ ''<span style={{'' @ [NL] @ textStyleStr @ [NL] @ indent @
              sp 8 @ ''}}>'' @ [NL] @ indent @ sp 10 @ text @ [NL] @ indent @ sp 8 @ ''</span>''
            else
              [NL] @ indent @ sp 8 @ ''<span>'' @ [NL] @ indent @ sp 10 @ text @ [NL] @ indent @
              sp 8 @ ''</span>'')
      else if hasSVG p \<and> shouldUseSVG p then svg_content dec p indent
      else if truthy_str (n_image p) then img_tag indent (str_of (n_image p)) (n_name p)
      else [])"

text \<open>The origin that a node passes to its children.\<close>

definition childrenX :: "props \<Rightarrow> bool \<Rightarrow> number \<Rightarrow> number" where
  "childrenX p isRoot parentX =
     (if isRoot then
        (let rootX = (case n_x p of Some x \<Rightarrow> x | None \<Rightarrow> 0)
         in if truthy_str (n_layoutMode p) then 0 else (if rootX < 0 then \<bar>rootX\<bar> else 0))
      else if truthy_str (n_layoutMode p) then 0
      else (case n_x p of Some x \<Rightarrow> x | None \<Rightarrow> parentX))"

definition childrenY :: "props \<Rightarrow> bool \<Rightarrow> number \<Rightarrow> number" where
  "childrenY p isRoot parentY =
     (if isRoot then
        (let rootY = (case n_y p of Some y \<Rightarrow> y | None \<Rightarrow> 0)
         in if truthy_str (n_layoutMode p) then 0 else (if rootY < 0 then \<bar>rootY\<bar> else 0))
      else if truthy_str (n_layoutMode p) then 0
      else (case n_y p of Some y \<Rightarrow> y | None \<Rightarrow> parentY))"

text \<open>
  The markup of a node, given its identifier, whether it has children and their joined
  markup.
\<close>

definition node_markup ::
  "(string \<Rightarrow> string option) \<Rightarrow> props \<Rightarrow> nat \<Rightarrow> number \<Rightarrow> number \<Rightarrow> string \<Rightarrow> bool \<Rightarrow> string \<Rightarrow> string"
where
  "node_markup dec p depth parentX parentY nodeId nodeHasChildren childrenContent =
     (let indent = concat (replicate depth (sp 6));
          isRoot = (depth = 0);
          styleString = style_lines (indent @ sp 8) (styles_of p isRoot parentX parentY);
          content = content_of dec p indent;
          Tag = (if n_type p = ''TEXT'' then ''span'' else ''div'');
          isSelfClosing = (\<not> nodeHasChildren \<and> content = []);
          openingTag0 = indent @ sp 4 @ ''<'' @ Tag @ [NL] @ indent @ sp 6 @ ''key='' @ dq nodeId;
          openingTag = (if styleString \<noteq> []
                        then openingTag0 @ [NL] @ indent @ sp 6 @ ''style={{'' @ [NL] @
                             styleString @ [NL] @ indent @ sp 6 @ ''}}''
                        else openingTag0)
      in if isSelfClosing then openingTag @ [NL] @ sp 4 @ ''/>''
         else openingTag @ [NL] @ sp 4 @ ''>'' @ [NL] @ content @ childrenContent @ indent @
              sp 4 @ ''</'' @ Tag @ ''>'')"

text \<open>
  \<open>generateNodeComponent\<close>. The counter \<open>nodeCounter\<close> of the enclosing call is threaded
  through: the function takes its value and returns the markup with the value it leaves.
  A node takes the next identifier, then its children are generated from left to right.
\<close>

fun generateNodeComponent ::
  "(string \<Rightarrow> string option) \<Rightarrow> node \<Rightarrow> nat \<Rightarrow> number \<Rightarrow> number \<Rightarrow> nat \<Rightarrow> string \<times> nat"
and generateNodeComponents ::
  "(string \<Rightarrow> string option) \<Rightarrow> node list \<Rightarrow> nat \<Rightarrow> number \<Rightarrow> number \<Rightarrow> nat \<Rightarrow> string list \<times> nat"
where
  "generateNodeComponent dec (Node p None) depth parentX parentY nodeCounter =
     (node_markup dec p depth parentX parentY (''node_'' @ show_nat nodeCounter) False [],
      nodeCounter + 1)"
| "generateNodeComponent dec (Node p (Some ch)) depth parentX parentY nodeCounter =
     (let r = generateNodeComponents dec ch (depth + 1)
                (childrenX p (depth = 0) parentX) (childrenY p (depth = 0) parentY)
                (nodeCounter + 1)
      in (node_markup dec p depth parentX parentY (''node_'' @ show_nat nodeCounter)
            (ch \<noteq> []) (join [NL] (fst r)),
          snd r))"
| "generateNodeComponents dec [] depth parentX parentY nodeCounter = ([], nodeCounter)"
| "generateNodeComponents dec (c # cs) depth parentX parentY nodeCounter =
     (let r1 = generateNodeComponent dec c depth parentX parentY nodeCounter;
          r2 = generateNodeComponents dec cs depth parentX parentY (snd r1)
      in (fst r1 # fst r2, snd r2))"

text \<open>The number of nodes of a tree, and of a list of trees.\<close>

fun node_count :: "node \<Rightarrow> nat"
and nodes_count :: "node list \<Rightarrow> nat"
where
  "node_count (Node p None) = 1"
| "node_count (Node p (Some ch)) = 1 + nodes_count ch"
| "nodes_count [] = 0"
| "nodes_count (c # cs) = node_count c + nodes_count cs"

text \<open>The request's \<open>data\<close>: an array of roots, or one object, which is wrapped.\<close>

datatype payload = Arr "node list" | Obj node

definition components_of :: "payload \<Rightarrow> node list" where
  "components_of data = (case data of Arr ns \<Rightarrow> ns | Obj n \<Rightarrow> [n])"

text \<open>
  The roots are generated in turn at depth 0, each with the offsets computed from its own
  coordinates as parent origin; the counter starts at 0 and runs through all of them.
\<close>

fun generateRoots :: "(string \<Rightarrow> string option) \<Rightarrow> node list \<Rightarrow> nat \<Rightarrow> string list \<times> nat" where
  "generateRoots dec [] nodeCounter = ([], nodeCounter)"
| "generateRoots dec (component # components) nodeCounter =
     (let rootX = (case n_x (props_of component) of Some x \<Rightarrow> x | None \<Rightarrow> 0);
          rootY = (case n_y (props_of component) of Some y \<Rightarrow> y | None \<Rightarrow> 0);
          childrenOffsetX = (if rootX < 0 then \<bar>rootX\<bar> else 0);
          childrenOffsetY = (if rootY < 0 then \<bar>rootY\<bar> else 0);
          r1 = generateNodeComponent dec component 0 childrenOffsetX childrenOffsetY nodeCounter;
          r2 = generateRoots dec components (snd r1)
      in (fst r1 # fst r2, snd r2))"

definition DEFAULT_COMPONENT_NAME :: string where
  "DEFAULT_COMPONENT_NAME = ''FigmaComponent''"

text \<open>The text of the component around the markup of the roots.\<close>

definition component_text :: "string \<Rightarrow> string \<Rightarrow> string" where
  "component_text componentName mainComponent =
     ''import React from '' @ sq ''react'' @ '';'' @ [NL] @
     ''import '' @ sq (''./'' @ componentName @ ''.css'') @ '';'' @ [NL] @ [NL] @
     ''const '' @ componentName @ '' = () => {'' @ [NL] @
     ''  return ('' @ [NL] @
     ''    <div className='' @ dq (toLowerCase componentName @ ''-container'') @ ''>'' @ [NL] @
     mainComponent @ [NL] @
     ''    </div>'' @ [NL] @
     ''  );'' @ [NL] @
     ''};'' @ [NL] @ [NL] @
     ''export default '' @ componentName @ '';'' @ [NL]"

definition generateComponentCode :: "(string \<Rightarrow> string option) \<Rightarrow> payload \<Rightarrow> string \<Rightarrow> string" where
  "generateComponentCode dec data componentName =
     (let mainComponent = join [NL] (fst (generateRoots dec (components_of data) 0))
      in component_text componentName mainComponent)"

subsection \<open>The counter as a variable of the call\<close>

text \<open>
  In the source the counter is a variable that \<open>generateComponentCode\<close> declares with the
  value 0 and that the inner function captures and increments. The functions above pass
  its value along. The functions of this subsection keep the variable itself: a store
  holds the variables that calls have created, a call of \<open>generateComponentCode_s\<close> takes
  the store as it finds it, creates its counter in a new cell, and leaves the store with
  that cell in it. \<open>generateNodeComponent_s\<close> reads and increments the cell at the address
  it is given.
\<close>

record store =
  next_cell :: nat
  cells :: "nat \<Rightarrow> nat"

definition alloc :: "nat \<Rightarrow> store \<Rightarrow> nat \<times> store" where
  "alloc v h =
     (next_cell h, h\<lparr>next_cell := next_cell h + 1, cells := (cells h)(next_cell h := v)\<rparr>)"

definition incr_cell :: "nat \<Rightarrow> store \<Rightarrow> store" where
  "incr_cell a h = h\<lparr>cells := (cells h)(a := cells h a + 1)\<rparr>"

fun generateNodeComponent_s ::
  "(string \<Rightarrow> string option) \<Rightarrow> nat \<Rightarrow> node \<Rightarrow> nat \<Rightarrow> number \<Rightarrow> number \<Rightarrow> store \<Rightarrow> string \<times> store"
and generateNodeComponents_s ::
  "(string \<Rightarrow> string option) \<Rightarrow> nat \<Rightarrow> node list \<Rightarrow> nat \<Rightarrow> number \<Rightarrow> number \<Rightarrow> store \<Rightarrow> string list \<times> store"
where
  "generateNodeComponent_s dec a (Node p None) depth parentX parentY h =
     (node_markup dec p depth parentX parentY (''node_'' @ show_nat (cells h a)) False [],
      incr_cell a h)"
| "generateNodeComponent_s dec a (Node p (Some ch)) depth parentX parentY h =
     (let r = generateNodeComponents_s dec a ch (depth + 1)
                (childrenX p (depth = 0) parentX) (childrenY p (depth = 0) parentY)
                (incr_cell a h)
      in (node_markup dec p depth parentX parentY (''node_'' @ show_nat (cells h a))
            (ch \<noteq> []) (join [NL] (fst r)),
          snd r))"
| "generateNodeComponents_s dec a [] depth parentX parentY h = ([], h)"
| "generateNodeComponents_s dec a (c # cs) depth parentX parentY h =
     (let r1 = generateNodeComponent_s dec a c depth parentX parentY h;
          r2 = generateNodeComponents_s dec a cs depth parentX parentY (snd r1)
      in (fst r1 # fst r2, snd r2))"

fun generateRoots_s ::
  "(string \<Rightarrow> string option) \<Rightarrow> nat \<Rightarrow> node list \<Rightarrow> store \<Rightarrow> string list \<times> store"
where
  "generateRoots_s dec a [] h = ([], h)"
| "generateRoots_s dec a (component # components) h =
     (let rootX = (case n_x (props_of component) of Some x \<Rightarrow> x | None \<Rightarrow> 0);
          rootY = (case n_y (props_of component) of Some y \<Rightarrow> y | None \<Rightarrow> 0);
          childrenOffsetX = (if rootX < 0 then \<bar>rootX\<bar> else 0);
          childrenOffsetY = (if rootY < 0 then \<bar>rootY\<bar> else 0);
          r1 = generateNodeComponent_s dec a component 0 childrenOffsetX childrenOffsetY h;
          r2 = generateRoots_s dec a components (snd r1)
      in (fst r1 # fst r2, snd r2))"

definition generateComponentCode_s ::
  "(string \<Rightarrow> string option) \<Rightarrow> payload \<Rightarrow> string \<Rightarrow> store \<Rightarrow> string \<times> store"
where
  "generateComponentCode_s dec data componentName h =
     (let nodeCounter = alloc 0 h;
          r = generateRoots_s dec (fst nodeCounter) (components_of data) (snd nodeCounter)
      in (component_text componentName (join [NL] (fst r)), snd r))"

text \<open>The attribute that carries the identifier of the node with a given number.\<close>

definition key_attr :: "nat \<Rightarrow> string" where
  "key_attr i = ''key='' @ dq (''node_'' @ show_nat i)"

definition generateCSS :: "string \<Rightarrow> string" where
  "generateCSS componentName =
     ''.'' @ toLowerCase componentName @ ''-container {'' @ [NL] @
     ''  position: relative;'' @ [NL] @
     ''  width: 100%;'' @ [NL] @
     ''  min-height: 100vh;'' @ [NL] @
     ''  display: flex;'' @ [NL] @
     ''  align-items: center;'' @ [NL] @
     ''  justify-content: center;'' @ [NL] @
     ''  background: #f5f5f5;'' @ [NL] @
     ''  overflow: auto;'' @ [NL] @
     ''  padding: 20px;'' @ [NL] @
     ''  box-sizing: border-box;'' @ [NL] @
     ''}'' @ [NL]"

subsection \<open>The request handler\<close>

text \<open>
  The file system is a map from paths to entries; a write succeeds. Paths are written
  from the repository root. The scaffolding of the project (external commands and the
  configuration files they need) is a parameter \<open>scaffold\<close>, which returns the new file
  system or throws with a message.
\<close>

datatype entry = Dir | File string

type_synonym fsys = "string \<Rightarrow> entry option"

datatype json = JBool bool | JString string | JList "string list"

datatype response = Response (status: nat) (body: "(string \<times> json) list")

definition PROJECT_DIR :: string where
  "PROJECT_DIR = ''react-app''"

definition SRC_DIR :: string where
  "SRC_DIR = ''react-app/src''"

definition COMPONENTS_DIR :: string where
  "COMPONENTS_DIR = ''react-app/src/components''"

definition directoryExists :: "fsys \<Rightarrow> string \<Rightarrow> bool" where
  "directoryExists fs p = (fs p \<noteq> None)"

definition ensureDirectory :: "fsys \<Rightarrow> string \<Rightarrow> fsys" where
  "ensureDirectory fs p = (if directoryExists fs p then fs else fs(p \<mapsto> Dir))"

definition writeFile :: "fsys \<Rightarrow> string \<Rightarrow> string \<Rightarrow> fsys" where
  "writeFile fs p c = fs(p \<mapsto> File c)"

definition createReactApp :: "(fsys \<Rightarrow> string \<times> fsys + fsys) \<Rightarrow> fsys \<Rightarrow> string \<times> fsys + fsys" where
  "createReactApp scaffold fs = (if directoryExists fs PROJECT_DIR then Inr fs else scaffold fs)"

text \<open>\<open>name.replace(/[^a-zA-Z0-9]/g, '')\<close>.\<close>

definition sanitize :: "string \<Rightarrow> string" where
  "sanitize name = filter (\<lambda>c. isLower c \<or> isUpper c \<or> isDigit c) name"

text \<open>\<open>data[0]?.name?.replace(...) || DEFAULT_COMPONENT_NAME\<close>; an object has no element 0.\<close>

definition componentName_of :: "payload \<Rightarrow> string" where
  "componentName_of data =
     (case data of
        Arr (n # _) \<Rightarrow>
          (if sanitize (n_name (props_of n)) = [] then DEFAULT_COMPONENT_NAME
           else sanitize (n_name (props_of n)))
      | _ \<Rightarrow> DEFAULT_COMPONENT_NAME)"

definition componentPath_of :: "payload \<Rightarrow> string" where
  "componentPath_of data = COMPONENTS_DIR @ ''/'' @ componentName_of data @ ''.jsx''"

definition appCode :: "string \<Rightarrow> string" where
  "appCode componentName =
     ''import React from '' @ sq ''react'' @ '';'' @ [NL] @
     ''import '' @ componentName @ '' from '' @ sq (''./components/'' @ componentName) @ '';'' @ [NL] @
     ''import '' @ sq ''./App.css'' @ '';'' @ [NL] @ [NL] @
     ''function App() {'' @ [NL] @
     ''  return ('' @ [NL] @
     ''    <div className='' @ dq ''App'' @ ''>'' @ [NL] @
     ''      <'' @ componentName @ '' />'' @ [NL] @
     ''    </div>'' @ [NL] @
     ''  );'' @ [NL] @
     ''}'' @ [NL] @ [NL] @
     ''export default App;'' @ [NL]"

text \<open>
  The handler of \<open>POST /generate-component\<close>. Its argument is the \<open>data\<close> property of the
  request body; \<open>None\<close> is a body without it (or with a falsy one).
\<close>

definition post_generate_component ::
  "(fsys \<Rightarrow> string \<times> fsys + fsys) \<Rightarrow> (string \<Rightarrow> string option) \<Rightarrow> fsys \<Rightarrow> payload option \<Rightarrow>
     response \<times> fsys"
where
  "post_generate_component scaffold dec fs data =
     (case data of
        None \<Rightarrow> (Response 400 [(''error'', JString ''No data provided'')], fs)
      | Some d \<Rightarrow>
          (case createReactApp scaffold fs of
             Inl err \<Rightarrow>
               (Response 500 [(''success'', JBool False), (''error'', JString (fst err))], snd err)
           | Inr fs1 \<Rightarrow>
               let fs2 = ensureDirectory fs1 COMPONENTS_DIR;
                   componentName = componentName_of d;
                   componentCode = generateComponentCode dec d componentName;
                   cssCode = generateCSS componentName;
                   componentPath = componentPath_of d;
                   cssPath = COMPONENTS_DIR @ ''/'' @ componentName @ ''.css'';
                   fs3 = writeFile fs2 componentPath componentCode;
                   fs4 = writeFile fs3 cssPath cssCode;
                   appJSPath = SRC_DIR @ ''/App.js'';
                   appJSXPath = SRC_DIR @ ''/App.jsx'';
                   fs5 = (if directoryExists fs4 appJSPath
                          then writeFile fs4 appJSPath (appCode componentName)
                          else writeFile fs4 appJSXPath (appCode componentName))
               in (Response 200
                     [(''success'', JBool True),
                      (''message'', JString (''Component '' @ componentName @
                         '' generated successfully! Run '' @ sq ''npm start'' @
                         '' in the react-app directory.'')),
                      (''componentPath'', JString componentPath)],
                   fs5)))"

section \<open>The server with fonts\<close>

text \<open>
  The server of \<open>/api/generate\<close>: \<open>getCommonStyles\<close>, \<open>styleObjectToString\<close>,
  \<open>generateElement\<close>, \<open>generateComponent\<close> and the handler. Reading a property of
  \<open>undefined\<close> throws a \<open>TypeError\<close>; the functions that can throw return a sum, the
  exception on the left.
\<close>

datatype exn = TypeError string

definition cannot_read :: "string \<Rightarrow> exn" where
  "cannot_read prop =
     TypeError (''Cannot read properties of undefined (reading '' @ sq prop @ '')'')"

text \<open>\<open>/\s{2,}/.test(s)\<close>: two white-space characters in a row.\<close>

fun two_spaces :: "string \<Rightarrow> bool" where
  "two_spaces (c # d # ds) = ((isSpace c \<and> isSpace d) \<or> two_spaces (d # ds))"
| "two_spaces _ = False"

definition is_flex :: "style \<Rightarrow> bool" where
  "is_flex st = (obj_get ''display'' st = Some (SStr ''flex''))"

text \<open>
  The typography of a text node, added to the styles so far: the blocks of the source in
  their order, one definition each.
\<close>

definition ty_whiteSpace :: "props \<Rightarrow> style \<Rightarrow> style" where
  "ty_whiteSpace p st =
     (if truthy_str (n_textContent p) \<and> two_spaces (str_of (n_textContent p))
      then obj_set ''whiteSpace'' (SStr ''pre'') st else st)"

definition ty_overflow :: "props \<Rightarrow> style \<Rightarrow> style" where
  "ty_overflow p st =
     (if truthy_num (n_rotation p)
      then obj_set ''whiteSpace'' (SStr ''nowrap'') (obj_set ''overflow'' (SStr ''visible'') st)
      else obj_set ''textOverflow'' (SStr ''ellipsis'') (obj_set ''overflow'' (SStr ''hidden'') st))"

definition ty_flex :: "props \<Rightarrow> style \<Rightarrow> style" where
  "ty_flex p st =
     (if \<not> truthy_num (n_rotation p) \<and> n_height p \<noteq> 0 \<and> truthy_num (n_fontSize p) \<and>
         n_height p > num_of (n_fontSize p) * (3 / 2)
      then obj_set ''justifyContent'' (SStr ''flex-start'')
             (obj_set ''alignItems'' (SStr ''center'') (obj_set ''display'' (SStr ''flex'') st))
      else st)"

definition ty_fontSize :: "props \<Rightarrow> style \<Rightarrow> style" where
  "ty_fontSize p st =
     (if truthy_num (n_fontSize p)
      then obj_set ''fontSize'' (SStr (px (num_of (n_fontSize p)))) st else st)"

definition ty_fontWeight :: "props \<Rightarrow> style \<Rightarrow> style" where
  "ty_fontWeight p st =
     (if truthy_val (n_fontWeight p)
      then obj_set ''fontWeight''
             (SNum (case n_fontWeight p of
                      Some (JStr s) \<Rightarrow> parseFloat_or s 400
                    | Some (JNum q) \<Rightarrow> Fin q
                    | None \<Rightarrow> Fin 400)) st
      else obj_set ''fontWeight'' (SNum (Fin 400)) st)"

definition ty_fontFamily :: "props \<Rightarrow> style \<Rightarrow> style" where
  "ty_fontFamily p st =
     (if truthy_str (n_fontFamily p)
      then obj_set ''fontFamily'' (SStr (cleanFont (str_of (n_fontFamily p)))) st else st)"

definition ty_textAlign :: "props \<Rightarrow> style \<Rightarrow> style" where
  "ty_textAlign p st =
     (let textAlign = (if truthy_str (n_textAlign p) then n_textAlign p
                       else n_textAlignHorizontal p)
      in if truthy_str textAlign then
           (if is_flex st then
              obj_set ''justifyContent''
                (SStr (if toLowerCase (str_of textAlign) = ''center'' then ''center''
                       else if toLowerCase (str_of textAlign) = ''right'' then ''flex-end''
                       else ''flex-start''))
                (obj_set ''textAlign'' (SStr (toLowerCase (str_of textAlign))) st)
            else obj_set ''textAlign'' (SStr (toLowerCase (str_of textAlign))) st)
         else
           (if is_flex st
            then obj_set ''justifyContent'' (SStr ''flex-start'')
                   (obj_set ''textAlign'' (SStr ''left'') st)
            else obj_set ''textAlign'' (SStr ''left'') st))"

definition ty_lineHeight :: "props \<Rightarrow> style \<Rightarrow> style" where
  "ty_lineHeight p st =
     (if truthy_measure (n_lineHeight p) then
        (case n_lineHeight p of
           Some (MNum q) \<Rightarrow> obj_set ''lineHeight'' (SStr (px q)) st
         | Some (MObj v u) \<Rightarrow>
             if u = Some ''AUTO'' then obj_set ''lineHeight'' (SStr ''normal'') st
             else if u = Some ''PIXELS''
             then obj_set ''lineHeight'' (SStr (opt_num_str v @ ''px'')) st
             else if u = Some ''PERCENT''
             then obj_set ''lineHeight'' (SStr (opt_num_str v @ ''%'')) st
             else if v \<noteq> None then obj_set ''lineHeight'' (SNum (Fin (num_of v))) st
             else st
         | None \<Rightarrow> st)
      else if truthy_num (n_fontSize p)
      then obj_set ''lineHeight'' (SStr (px (Math_round (num_of (n_fontSize p) * (6 / 5))))) st
      else st)"

definition ty_letterSpacing :: "props \<Rightarrow> style \<Rightarrow> style" where
  "ty_letterSpacing p st =
     (if truthy_measure (n_letterSpacing p) then
        (case n_letterSpacing p of
           Some (MNum q) \<Rightarrow> obj_set ''letterSpacing'' (SStr (px q)) st
         | Some (MObj v u) \<Rightarrow>
             if u = Some ''PIXELS''
             then obj_set ''letterSpacing'' (SStr (opt_num_str v @ ''px'')) st
             else if u = Some ''PERCENT''
             then obj_set ''letterSpacing'' (SStr (opt_num_str v @ ''%'')) st
             else if v \<noteq> None \<and> v \<noteq> Some 0
             then obj_set ''letterSpacing'' (SStr (num_str (num_of v) @ ''em'')) st
             else st
         | None \<Rightarrow> st)
      else st)"

definition typography :: "props \<Rightarrow> style \<Rightarrow> style" where
  "typography p st =
     ty_letterSpacing p (ty_lineHeight p (ty_textAlign p (ty_fontFamily p (ty_fontWeight p
       (ty_fontSize p (ty_flex p (ty_overflow p (ty_whiteSpace p st))))))))"

text \<open>
  \<open>getCommonStyles\<close>, block by block: position and size, rotation, fill, stroke, shadow,
  typography, corner radius. The shadow is the first visible drop shadow; its colour is
  taken at half opacity, and reading the offset of a shadow without one throws.
\<close>

definition cs_base :: "props \<Rightarrow> style" where
  "cs_base p =
     [(''position'', SStr ''absolute''),
      (''left'', SStr (opt_num_str (n_x p) @ ''px'')),
      (''top'', SStr (opt_num_str (n_y p) @ ''px'')),
      (''width'', SStr (px (n_width p))),
      (''height'', SStr (px (n_height p)))]"

definition cs_rotation :: "props \<Rightarrow> style \<Rightarrow> style" where
  "cs_rotation p st =
     (if truthy_num (n_rotation p)
      then obj_set ''transformOrigin'' (SStr ''0 0'')
             (obj_set ''transform'' (SStr (''rotate('' @ num_str (num_of (n_rotation p)) @ ''deg)'')) st)
      else st)"

definition cs_fills :: "props \<Rightarrow> style \<Rightarrow> style" where
  "cs_fills p st =
     (case n_fills p of
        [] \<Rightarrow> st
      | fill # _ \<Rightarrow>
          if f_type fill = ''SOLID'' then
            (if n_type p = ''TEXT''
             then obj_set ''color'' (SStr (rgbToColor (f_color fill) (f_opacity fill))) st
             else if \<not> truthy_str (n_image p) \<and> \<not> truthy_str (n_svg p) \<and>
                     \<not> truthy_str (n_svgBase64 p)
             then obj_set ''backgroundColor'' (SStr (rgbToColor (f_color fill) (f_opacity fill))) st
             else st)
          else st)"

definition cs_strokes :: "props \<Rightarrow> style \<Rightarrow> style" where
  "cs_strokes p st =
     (case n_strokes p of
        [] \<Rightarrow> st
      | stroke # _ \<Rightarrow>
          if s_type stroke = ''SOLID''
          then obj_set ''border''
                 (SStr (px (num_or (s_weight stroke) 1) @ '' solid '' @
                        rgbToColor (s_color stroke) (s_opacity stroke))) st
          else st)"

text \<open>The box shadow of a shadow that has an offset.\<close>

definition boxShadow_of :: "effect \<Rightarrow> number option \<times> number option \<Rightarrow> string" where
  "boxShadow_of shadow xy =
     opt_num_str (fst xy) @ ''px '' @ opt_num_str (snd xy) @ ''px '' @
     opt_num_str (e_radius shadow) @ ''px '' @ rgbToColor (e_color shadow) (Some (1 / 2))"

definition cs_effects :: "props \<Rightarrow> style \<Rightarrow> exn + style" where
  "cs_effects p st =
     (case find visible_drop_shadow (n_effects p) of
        None \<Rightarrow> Inr st
      | Some shadow \<Rightarrow>
          (case e_offset shadow of
             None \<Rightarrow> Inl (cannot_read ''x'')
           | Some xy \<Rightarrow> Inr (obj_set ''boxShadow'' (SStr (boxShadow_of shadow xy)) st)))"

definition cs_radius :: "props \<Rightarrow> style \<Rightarrow> style" where
  "cs_radius p st =
     (if truthy_num (n_cornerRadius p)
      then obj_set ''borderRadius'' (SStr (px (num_of (n_cornerRadius p)))) st else st)"

definition getCommonStyles :: "props \<Rightarrow> exn + style" where
  "getCommonStyles p =
     (case cs_effects p (cs_strokes p (cs_fills p (cs_rotation p (cs_base p)))) of
        Inl e \<Rightarrow> Inl e
      | Inr st \<Rightarrow> Inr (cs_radius p (if n_type p = ''TEXT'' then typography p st else st)))"

definition styleObjectToString :: "style \<Rightarrow> string" where
  "styleObjectToString styles =
     join '', ''
       (map (\<lambda>kv. case snd kv of
                     SStr v \<Rightarrow>
                       if fst kv = ''fontFamily''
                       then fst kv @ '': '' @
                            sq (replaceAll SQ [BS, SQ]
                                  (join '', '' (map (\<lambda>font. stripQuotes (trim font)) (split (CHR '','') v))))
                       else fst kv @ '': '' @ sq (replaceAll SQ [BS, SQ] v)
                   | SNum q \<Rightarrow> fst kv @ '': '' @ jsnum_str q)
          styles)"

text \<open>\<open>styles.textAlign || 'left'\<close>.\<close>

definition textAlign_or_left :: "style \<Rightarrow> string" where
  "textAlign_or_left styles =
     (case obj_get ''textAlign'' styles of
        Some (SStr a) \<Rightarrow> if a = [] then ''left'' else a
      | Some (SNum q) \<Rightarrow> jsnum_str q
      | None \<Rightarrow> ''left'')"

text \<open>The element of a text node.\<close>

definition textElement :: "props \<Rightarrow> style \<Rightarrow> string" where
  "textElement p styles =
     (let styleStr = styleObjectToString styles;
          escapedText = escapeJSXText (case n_textContent p of None \<Rightarrow> [] | Some t \<Rightarrow> t);
          textJSX = ''{'' @ sq escapedText @ ''}''
      in if truthy_num (n_rotation p) then
           ''<div style={{'' @ styleStr @ ''}}><span style={{display: '' @
           sq ''inline-block'' @ '', width: '' @ sq ''100%'' @ '', textAlign: '' @
           sq (textAlign_or_left styles) @ ''}}>'' @ textJSX @ ''</span></div>''
         else if is_flex styles then
           ''<div style={{'' @ styleStr @ ''}}><span style={{width: '' @ sq ''100%'' @
           '', textAlign: '' @ sq (textAlign_or_left styles) @ ''}}>'' @ textJSX @
           ''</span></div>''
         else ''<div style={{'' @ styleStr @ ''}}>'' @ textJSX @ ''</div>'')"

text \<open>A node has a raster or vector export.\<close>

definition has_asset :: "props \<Rightarrow> bool" where
  "has_asset p = (truthy_str (n_image p) \<or> truthy_str (n_svg p) \<or> truthy_str (n_svgBase64 p))"

text \<open>The element of a node with an export: the inline vector markup before an image.\<close>

definition assetElement :: "props \<Rightarrow> style \<Rightarrow> string" where
  "assetElement p styles =
     (let styleStr = styleObjectToString styles
      in if truthy_str (n_svg p) then
           (let escapedSvg =
                  replaceAll CR [BS, CHR ''r'']
                    (replaceAll NL [BS, CHR ''n'']
                      (replaceAll DQ [BS, DQ]
                        (replaceAll SQ [BS, SQ] (replaceAll BS [BS, BS] (str_of (n_svg p))))))
            in ''<div style={{'' @ styleStr @ ''}} dangerouslySetInnerHTML={{__html: '' @
               sq escapedSvg @ ''}} />'')
         else
           (let src = (if truthy_str (n_svgBase64 p) then str_of (n_svgBase64 p)
                       else str_of (n_image p))
            in ''<img src='' @ dq src @ '' alt='' @ dq (n_name p) @ '' style={{'' @
               styleStr @ '', objectFit: '' @ sq ''contain'' @ ''}} />''))"

text \<open>
  The element of a node that has no element children: a text node, or else a node with an
  export. \<open>None\<close> is a node that is neither.
\<close>

definition leafElement :: "props \<Rightarrow> style \<Rightarrow> string option" where
  "leafElement p styles =
     (if n_type p = ''TEXT'' then Some (textElement p styles)
      else if has_asset p then Some (assetElement p styles)
      else None)"

text \<open>
  \<open>generateElement\<close>: a node that is not visible gives the empty string; a leaf gives its
  element; a container gives a \<open>div\<close> around the elements of its children, joined by
  newlines. An exception of a descendant propagates.
\<close>

fun generateElement :: "node \<Rightarrow> exn + string"
and generateElements :: "node list \<Rightarrow> exn + string list"
where
  "generateElement (Node p cs) =
     (if \<not> truthy_bool (n_visible p) then Inr []
      else
        (case getCommonStyles p of
           Inl e \<Rightarrow> Inl e
         | Inr styles \<Rightarrow>
             (case leafElement p styles of
                Some html \<Rightarrow> Inr html
              | None \<Rightarrow>
                  (case cs of
                     None \<Rightarrow> Inr (''<div style={{'' @ styleObjectToString styles @ ''}}></div>'')
                   | Some ch \<Rightarrow>
                       (case generateElements ch of
                          Inl e \<Rightarrow> Inl e
                        | Inr hs \<Rightarrow>
                            Inr (''<div style={{'' @ styleObjectToString styles @ ''}}>'' @
                                 join [NL] hs @ ''</div>''))))))"
| "generateElements [] = Inr []"
| "generateElements (c # cs) =
     (case generateElement c of
        Inl e \<Rightarrow> Inl e
      | Inr h \<Rightarrow> (case generateElements cs of Inl e \<Rightarrow> Inl e | Inr hs \<Rightarrow> Inr (h # hs)))"

text \<open>
  \<open>generateComponent\<close>. The root is the first element of the data; only its children are
  generated. The parameter \<open>fontCSS\<close> is not used by the source either.
\<close>

definition generateComponent :: "node list \<Rightarrow> string \<Rightarrow> string \<Rightarrow> exn + string" where
  "generateComponent data name fontCSS =
     (case data of
        [] \<Rightarrow> Inl (cannot_read ''width'')
      | rootNode # _ \<Rightarrow>
          let rootBg = (case n_fills (props_of rootNode) of
                          [] \<Rightarrow> ''transparent''
                        | fill # _ \<Rightarrow>
                            if f_type fill = ''SOLID''
                            then rgbToColor (f_color fill) (f_opacity fill) else ''transparent'')
          in case children rootNode of
               None \<Rightarrow> Inl (cannot_read ''map'')
             | Some ch \<Rightarrow>
                 (case generateElements ch of
                    Inl e \<Rightarrow> Inl e
                  | Inr hs \<Rightarrow>
                      Inr (''import React from '' @ sq ''react'' @ '';'' @ [NL] @
                           ''import '' @ sq (''./'' @ name @ ''.css'') @ '';'' @ [NL] @ [NL] @
                           ''const '' @ name @ '' = () => {'' @ [NL] @
                           ''    return ('' @ [NL] @
                           ''        <div style={{'' @ [NL] @
                           ''            position: '' @ sq ''relative'' @ '','' @ [NL] @
                           ''            width: '' @ sq (px (n_width (props_of rootNode))) @ '','' @ [NL] @
                           ''            height: '' @ sq (px (n_height (props_of rootNode))) @ '','' @ [NL] @
                           ''            backgroundColor: '' @ sq rootBg @ '','' @ [NL] @
                           ''            overflow: '' @ sq ''hidden'' @ '','' @ [NL] @
                           ''            margin: '' @ sq ''0 auto'' @ '' // Center it'' @ [NL] @
                           ''        }}>'' @ [NL] @
                           ''            '' @ join [NL] hs @ [NL] @
                           ''        </div>'' @ [NL] @
                           ''    );'' @ [NL] @
                           ''};'' @ [NL] @ [NL] @
                           ''export default '' @ name @ '';'' @ [NL])))"

subsection \<open>The request handler\<close>

definition COMPONENT_DIR :: string where
  "COMPONENT_DIR = ''react-app/src/components''"

definition FONTS_DIR :: string where
  "FONTS_DIR = ''react-app/public/fonts''"

definition exn_message :: "exn \<Rightarrow> string" where
  "exn_message e = (case e of TypeError m \<Rightarrow> m)"

definition indexAppCode :: "string \<Rightarrow> string" where
  "indexAppCode componentName =
     ''import React from '' @ sq ''react'' @ '';'' @ [NL] @
     ''import '' @ componentName @ '' from '' @ sq (''./components/'' @ componentName) @ '';'' @ [NL] @
     [NL] @
     ''function App() {'' @ [NL] @
     ''  return ('' @ [NL] @
     ''    <div className='' @ dq ''App'' @ ''>'' @ [NL] @
     ''      <'' @ componentName @ '' />'' @ [NL] @
     ''    </div>'' @ [NL] @
     ''  );'' @ [NL] @
     ''}'' @ [NL] @ [NL] @
     ''export default App;''"

text \<open>
  The handler of \<open>POST /api/generate\<close>. Its argument is the request body: an array of
  nodes, or \<open>None\<close> for a body that is no array (the empty object of a request without
  one). \<open>download\<close> is the font collaborator: the style sheet text it resolves to for a
  font name; it does not throw.
\<close>

definition post_api_generate ::
  "(string \<Rightarrow> string) \<Rightarrow> fsys \<Rightarrow> node list option \<Rightarrow> response \<times> fsys"
where
  "post_api_generate download fs reqBody =
     (let fs1 = ensureDirectory fs COMPONENT_DIR
      in case reqBody of
           None \<Rightarrow> (Response 500 [(''error'', JString (exn_message (cannot_read ''name'')))], fs1)
         | Some [] \<Rightarrow> (Response 500 [(''error'', JString (exn_message (cannot_read ''name'')))], fs1)
         | Some (rootNode # rest) \<Rightarrow>
             let data = rootNode # rest;
                 componentName = (if sanitize (n_name (props_of rootNode)) = [] then ''Frame1''
                                  else sanitize (n_name (props_of rootNode)));
                 fonts = extractFontsFromData data;
                 fs2 = (if fonts \<noteq> [] then ensureDirectory fs1 FONTS_DIR else fs1);
                 fontCSS = (if fonts \<noteq> [] then join [NL, NL] (map download fonts) else [])
             in case generateComponent data componentName fontCSS of
                  Inl e \<Rightarrow> (Response 500 [(''error'', JString (exn_message e))], fs2)
                | Inr code \<Rightarrow>
                    (Response 200 [(''success'', JBool True), (''fonts'', JList fonts)],
                     writeFile
                       (writeFile
                          (writeFile fs2 (COMPONENT_DIR @ ''/'' @ componentName @ ''.jsx'') code)
                          (COMPONENT_DIR @ ''/'' @ componentName @ ''.css'') fontCSS)
                       ''react-app/src/App.js'' (indexAppCode componentName)))"


section \<open>Example trees\<close>

text \<open>
  A frame "Card" of 300 by 120 at (-50, -10) with a text child "Label" at (10, 10), of
  content "Hi!", size 14 and weight "Bold".
\<close>

definition card_props :: props where
  "card_props = blank\<lparr>n_name := ''Card'', n_x := Some (- 50), n_y := Some (- 10),
     n_width := 300, n_height := 120\<rparr>"

definition label_props :: props where
  "label_props = blank\<lparr>n_name := ''Label'', n_type := ''TEXT'', n_x := Some 10, n_y := Some 10,
     n_width := 40, n_height := 20, n_textContent := Some ''Hi!'', n_fontSize := Some 14,
     n_fontWeight := Some (JStr ''Bold'')\<rparr>"

definition card :: node where
  "card = Node card_props (Some [Node label_props None])"





text \<open>Two visible drop shadows, the first without a colour, after one that is not visible.\<close>

definition plain_shadow :: effect where
  "plain_shadow = \<lparr>e_type = ''DROP_SHADOW'', e_visible = Some True, e_color = None,
     e_offset = Some (Some 0, Some 4), e_radius = Some 4\<rparr>"

definition red_shadow :: effect where
  "red_shadow = \<lparr>e_type = ''DROP_SHADOW'', e_visible = Some True, e_color = Some (RGB 1 0 0),
     e_offset = Some (Some 1, Some 2), e_radius = Some 3\<rparr>"

definition shadow_props :: props where
  "shadow_props = blank\<lparr>n_name := ''Shadowed'',
     n_effects := [plain_shadow\<lparr>e_visible := Some False\<rparr>, plain_shadow, red_shadow]\<rparr>"

text \<open>A store in which no call has created a variable yet.\<close>

definition empty_store :: store where
  "empty_store = \<lparr>next_cell = 0, cells = (\<lambda>a. 0)\<rparr>"

section \<open>Properties of the classifier\<close>

text \<open>
  C3. The classification is decided by the first rule that matches, in the order Button
  (a name with "button" or "btn" on a container type), TextField (a name with "input",
  "field" or "search"), Checkbox (a name with "checkbox" or "tick"), Typography (the type
  TEXT), and no widget otherwise. The words are looked for in the lower-cased name. So a
  container named "search button" is a Button, not a TextField.
\<close>

theorem detectComponentType_first_match:
  "((name_has node ''button'' \<or> name_has node ''btn'') \<and> container_type node
      \<longrightarrow> detectComponentType node = Some ''Button'') \<and>
   (\<not> ((name_has node ''button'' \<or> name_has node ''btn'') \<and> container_type node) \<and>
    (name_has node ''input'' \<or> name_has node ''field'' \<or> name_has node ''search'')
      \<longrightarrow> detectComponentType node = Some ''TextField'') \<and>
   (\<not> ((name_has node ''button'' \<or> name_has node ''btn'') \<and> container_type node) \<and>
    \<not> (name_has node ''input'' \<or> name_has node ''field'' \<or> name_has node ''search'') \<and>
    (name_has node ''checkbox'' \<or> name_has node ''tick'')
      \<longrightarrow> detectComponentType node = Some ''Checkbox'') \<and>
   (\<not> ((name_has node ''button'' \<or> name_has node ''btn'') \<and> container_type node) \<and>
    \<not> (name_has node ''input'' \<or> name_has node ''field'' \<or> name_has node ''search'') \<and>
    \<not> (name_has node ''checkbox'' \<or> name_has node ''tick'') \<and>
    n_type (props_of node) = ''TEXT''
      \<longrightarrow> detectComponentType node = Some ''Typography'') \<and>
   (\<not> ((name_has node ''button'' \<or> name_has node ''btn'') \<and> container_type node) \<and>
    \<not> (name_has node ''input'' \<or> name_has node ''field'' \<or> name_has node ''search'') \<and>
    \<not> (name_has node ''checkbox'' \<or> name_has node ''tick'') \<and>
    n_type (props_of node) \<noteq> ''TEXT''
      \<longrightarrow> detectComponentType node = None)"
  unfolding detectComponentType_def name_has_def container_type_def Let_def
  by simp

theorem detectComponentType_first_match_witness:
  "detectComponentType (Node (blank\<lparr>n_name := ''search button''\<rparr>) None) = Some ''Button'' \<and>
   detectComponentType (Node (blank\<lparr>n_name := ''Search Button'', n_type := ''RECTANGLE''\<rparr>) None) = Some ''TextField'' \<and>
   detectComponentType (Node (blank\<lparr>n_name := ''Tick box''\<rparr>) None) = Some ''Checkbox'' \<and>
   detectComponentType (Node (blank\<lparr>n_name := ''Label'', n_type := ''TEXT''\<rparr>) None) = Some ''Typography'' \<and>
   detectComponentType (Node (blank\<lparr>n_name := ''Card''\<rparr>) None) = None"
proof -
  let ?n1 = "Node (blank\<lparr>n_name := ''search button''\<rparr>) None"
  let ?n2 = "Node (blank\<lparr>n_name := ''Search Button'', n_type := ''RECTANGLE''\<rparr>) None"
  let ?n3 = "Node (blank\<lparr>n_name := ''Tick box''\<rparr>) None"
  let ?n4 = "Node (blank\<lparr>n_name := ''Label'', n_type := ''TEXT''\<rparr>) None"
  let ?n5 = "Node (blank\<lparr>n_name := ''Card''\<rparr>) None"
  have h1: "(name_has ?n1 ''button'' \<or> name_has ?n1 ''btn'') \<and> container_type ?n1"
    by code_simp
  have h2: "\<not> ((name_has ?n2 ''button'' \<or> name_has ?n2 ''btn'') \<and> container_type ?n2) \<and>
    (name_has ?n2 ''input'' \<or> name_has ?n2 ''field'' \<or> name_has ?n2 ''search'')"
    by code_simp
  have h3: "\<not> ((name_has ?n3 ''button'' \<or> name_has ?n3 ''btn'') \<and> container_type ?n3) \<and>
    \<not> (name_has ?n3 ''input'' \<or> name_has ?n3 ''field'' \<or> name_has ?n3 ''search'') \<and>
    (name_has ?n3 ''checkbox'' \<or> name_has ?n3 ''tick'')"
    by code_simp
  have h4: "\<not> ((name_has ?n4 ''button'' \<or> name_has ?n4 ''btn'') \<and> container_type ?n4) \<and>
    \<not> (name_has ?n4 ''input'' \<or> name_has ?n4 ''field'' \<or> name_has ?n4 ''search'') \<and>
    \<not> (name_has ?n4 ''checkbox'' \<or> name_has ?n4 ''tick'') \<and>
    n_type (props_of ?n4) = ''TEXT''"
    by code_simp
  have h5: "\<not> ((name_has ?n5 ''button'' \<or> name_has ?n5 ''btn'') \<and> container_type ?n5) \<and>
    \<not> (name_has ?n5 ''input'' \<or> name_has ?n5 ''field'' \<or> name_has ?n5 ''search'') \<and>
    \<not> (name_has ?n5 ''checkbox'' \<or> name_has ?n5 ''tick'') \<and>
    n_type (props_of ?n5) \<noteq> ''TEXT''"
    by code_simp
  note t = detectComponentType_first_match
  note c1 = t[of ?n1, THEN conjunct1, rule_format, OF h1]
  note c2 = t[of ?n2, THEN conjunct2, THEN conjunct1, rule_format, OF h2]
  note c3 = t[of ?n3, THEN conjunct2, THEN conjunct2, THEN conjunct1, rule_format, OF h3]
  note c4 = t[of ?n4, THEN conjunct2, THEN conjunct2, THEN conjunct2, THEN conjunct1, rule_format, OF h4]
  note c5 = t[of ?n5, THEN conjunct2, THEN conjunct2, THEN conjunct2, THEN conjunct2, rule_format, OF h5]
  show ?thesis
    by (intro conjI c1 c2 c3 c4 c5)
qed

section \<open>Properties of the escaper\<close>

lemma replaceAll_Nil: "replaceAll c r [] = []"
  by (simp add: replaceAll_def)

lemma replaceAll_Cons: "replaceAll c r (d # ds) = (if d = c then r else [d]) @ replaceAll c r ds"
  by (simp add: replaceAll_def)

lemma replaceAll_append: "replaceAll c r (xs @ ys) = replaceAll c r xs @ replaceAll c r ys"
  by (simp add: replaceAll_def)

text \<open>The replacements do not interfere: together they map each character on its own.\<close>

lemma escape_concat: "escapeJSXText s = concat (map esc_char s)"
proof -
  have "replaceAll TAB [BS, CHR ''t''] (replaceAll CR [BS, CHR ''r''] (replaceAll NL [BS, CHR ''n'']
          (replaceAll SQ [BS, SQ] (replaceAll BS [BS, BS] s)))) = concat (map esc_char s)"
    by (induction s) (simp_all add: replaceAll_Nil replaceAll_Cons replaceAll_append esc_char_def)
  then show ?thesis by (cases s) (simp_all add: escapeJSXText_def)
qed

lemma unescape_esc_char: "unescapeJS (esc_char c @ rest) = map_option ((#) c) (unescapeJS rest)"
  by (cases rest) (auto simp: esc_char_def)

lemma unescape_concat: "unescapeJS (concat (map esc_char s)) = Some s"
  by (induction s) (simp_all add: unescape_esc_char)

text \<open>
  C6. Reading the escaped text back as a single-quoted literal gives the text again, for
  every text; hence two texts with the same escaped form are equal.
\<close>

theorem escapeJSXText_roundtrip:
  "unescapeJS (escapeJSXText s) = Some s \<and> ((escapeJSXText s = escapeJSXText t) = (s = t))"
proof -
  have rt: "unescapeJS (escapeJSXText u) = Some u" for u
    by (simp add: escape_concat unescape_concat)
  have "s = t" if "escapeJSXText s = escapeJSXText t"
  proof -
    have "Some s = unescapeJS (escapeJSXText s)" by (simp add: rt)
    also have "\<dots> = Some t" by (simp add: that rt)
    finally show ?thesis by simp
  qed
  then show ?thesis using rt by blast
qed

section \<open>Properties of the font collection\<close>

lemma systemFonts_lower: "s \<in> set systemFonts \<Longrightarrow> toLowerCase s = s"
proof -
  have "\<forall>s\<in>set systemFonts. toLowerCase s = s" by code_simp
  then show "s \<in> set systemFonts \<Longrightarrow> toLowerCase s = s" by blast
qed

lemma isSystemFont_iff:
  "isSystemFont f = (\<exists>s\<in>set systemFonts. str_includes (toLowerCase f) s)"
  by (auto simp: isSystemFont_def list_ex_iff systemFonts_lower)

lemma set_add_set: "set (set_add f fonts) = insert f (set fonts)"
  by (auto simp: set_add_def)

lemma traverse_no_system:
  "\<forall>f\<in>set fonts. \<not> isSystemFont f \<Longrightarrow> \<forall>f\<in>set (traverse n fonts). \<not> isSystemFont f"
proof (induction n fonts rule: traverse.induct)
  case (1 p cs fonts)
  define fonts1 where "fonts1 =
            (if truthy_str (n_fontFamily p) then
               (let cf = cleanFont (str_of (n_fontFamily p))
                in if cf \<noteq> [] \<and> \<not> isSystemFont cf then set_add cf fonts
                   else fonts)
             else fonts)"
  have f1: "\<forall>f\<in>set fonts1. \<not> isSystemFont f"
    using "1.prems" by (auto simp: fonts1_def Let_def set_add_set)
  have tr: "traverse (Node p cs) fonts = (case cs of None \<Rightarrow> fonts1 | Some ch \<Rightarrow> fold traverse ch fonts1)"
    by (simp add: fonts1_def Let_def split: option.split)
  show ?case
  proof (cases cs)
    case None
    show ?thesis unfolding tr using None f1 by simp
  next
    case (Some ch)
    have "\<forall>f\<in>set (fold traverse xs acc). \<not> isSystemFont f"
      if "set xs \<subseteq> set ch" and "\<forall>f\<in>set acc. \<not> isSystemFont f" for xs acc
      using that
    proof (induction xs arbitrary: acc)
      case Nil
      then show ?case by simp
    next
      case (Cons x xs)
      have "\<forall>f\<in>set (traverse x acc). \<not> isSystemFont f"
        using "1.IH"[OF fonts1_def Some, of x acc] Cons.prems by simp
      then show ?case using Cons by simp
    qed
    from this[of ch fonts1] f1 have "\<forall>f\<in>set (fold traverse ch fonts1). \<not> isSystemFont f"
      by simp
    then show ?thesis unfolding tr using Some by simp
  qed
qed

lemma extractFonts_no_system: "\<forall>f\<in>set (extractFontsFromData data). \<not> isSystemFont f"
proof -
  have "\<forall>f\<in>set (fold traverse xs acc). \<not> isSystemFont f"
    if "\<forall>f\<in>set acc. \<not> isSystemFont f" for xs acc
    using that
  proof (induction xs arbitrary: acc)
    case Nil
    then show ?case by simp
  next
    case (Cons x xs)
    show ?case using Cons.IH[OF traverse_no_system[OF Cons.prems, of x]] by simp
  qed
  from this[of "[]" data] show ?thesis by (simp add: extractFontsFromData_def)
qed

text \<open>
  C10. A font name that contains a name of the denylist as a substring, letter case
  ignored, is a system font, and no font collection contains it.
\<close>

theorem isSystemFont_substring:
  "s \<in> set systemFonts \<Longrightarrow> str_includes (toLowerCase f) s \<Longrightarrow>
     isSystemFont f \<and> f \<notin> set (extractFontsFromData data)"
  using extractFonts_no_system[of data] by (auto simp: isSystemFont_iff)

theorem isSystemFont_substring_witness:
  "''roboto'' \<in> set systemFonts \<and> str_includes (toLowerCase ''Roboto Slab'') ''roboto'' \<and>
   isSystemFont ''Roboto Slab'' \<and>
   ''Roboto Slab'' \<notin> set (extractFontsFromData
       [Node (blank\<lparr>n_fontFamily := Some ''Roboto Slab''\<rparr>)
          (Some [Node (blank\<lparr>n_type := ''TEXT'', n_fontFamily := Some ''Inter''\<rparr>) None])])"
proof -
  have h1: "''roboto'' \<in> set systemFonts" by code_simp
  have h2: "str_includes (toLowerCase ''Roboto Slab'') ''roboto''" by code_simp
  show ?thesis using isSystemFont_substring[OF h1 h2] h1 h2 by (intro conjI) blast+
qed


section \<open>Properties of the font weight\<close>

text \<open>
  C4, as the code has it. In the later plugin a non-empty style name that starts with a
  number has that number as its weight. A name that does not, and that contains none of the
  words tested earlier (thin, extralight, ultralight, light, regular, normal, medium and the
  numerals 100 to 500), has weight 600 when it contains "semibold" (or "demi", "600"), weight
  700 when it contains none of these and contains "bold" (or "700"), and weight 400 when it
  contains no word of the vocabulary. The earlier plugin has no vocabulary: a name that
  does not start with a number has weight 400 there.
\<close>

theorem convertFontWeight_first_match:
  "(style \<noteq> [] \<and> parseFloat style \<noteq> NaN \<longrightarrow> convertFontWeight style = parseFloat style) \<and>
   (parseFloat style = NaN \<and> \<not> has_any (toLowerCase style) lighter_words \<and>
    has_any (toLowerCase style) semibold_words \<longrightarrow> convertFontWeight style = Fin 600) \<and>
   (parseFloat style = NaN \<and> \<not> has_any (toLowerCase style) lighter_words \<and>
    \<not> has_any (toLowerCase style) semibold_words \<and> has_any (toLowerCase style) bold_words
      \<longrightarrow> convertFontWeight style = Fin 700) \<and>
   (parseFloat style = NaN \<and> \<not> has_any (toLowerCase style) lighter_words \<and>
    \<not> has_any (toLowerCase style) semibold_words \<and> \<not> has_any (toLowerCase style) bold_words \<and>
    \<not> has_any (toLowerCase style) heavier_words \<longrightarrow> convertFontWeight style = Fin 400) \<and>
   (parseFloat style = NaN \<longrightarrow> fontWeight_earlier (Some style) = Some (Fin 400))"
proof (cases "style = []")
  case True
  then show ?thesis
    by (simp add: convertFontWeight_def has_any_def semibold_words_def bold_words_def
        toLowerCase_def fontWeight_earlier_def parseFloat_or_def)
next
  case False
  then show ?thesis
    unfolding convertFontWeight_def has_any_def lighter_words_def semibold_words_def bold_words_def
      heavier_words_def fontWeight_earlier_def parseFloat_or_def Let_def
    by simp
qed

theorem convertFontWeight_first_match_witness:
  "convertFontWeight ''700'' = Fin 700 \<and> convertFontWeight ''SemiBold'' = Fin 600 \<and>
   convertFontWeight ''Bold'' = Fin 700 \<and> convertFontWeight ''Fancy'' = Fin 400 \<and>
   fontWeight_earlier (Some ''Bold'') = Some (Fin 400)"
proof -
  have h1: "''700'' \<noteq> [] \<and> parseFloat ''700'' \<noteq> NaN" by code_simp
  have v1: "parseFloat ''700'' = Fin 700" by code_simp
  have h2: "parseFloat ''SemiBold'' = NaN \<and> \<not> has_any (toLowerCase ''SemiBold'') lighter_words \<and>
    has_any (toLowerCase ''SemiBold'') semibold_words" by code_simp
  have h3: "parseFloat ''Bold'' = NaN \<and> \<not> has_any (toLowerCase ''Bold'') lighter_words \<and>
    \<not> has_any (toLowerCase ''Bold'') semibold_words \<and> has_any (toLowerCase ''Bold'') bold_words"
    by code_simp
  have h4: "parseFloat ''Fancy'' = NaN \<and> \<not> has_any (toLowerCase ''Fancy'') lighter_words \<and>
    \<not> has_any (toLowerCase ''Fancy'') semibold_words \<and> \<not> has_any (toLowerCase ''Fancy'') bold_words \<and>
    \<not> has_any (toLowerCase ''Fancy'') heavier_words" by code_simp
  have h5: "parseFloat ''Bold'' = NaN" using h3 by (rule conjunct1)
  note t = convertFontWeight_first_match
  note c1 = t[of "''700''", THEN conjunct1, rule_format, OF h1, unfolded v1]
  note c2 = t[of "''SemiBold''", THEN conjunct2, THEN conjunct1, rule_format, OF h2]
  note c3 = t[of "''Bold''", THEN conjunct2, THEN conjunct2, THEN conjunct1, rule_format, OF h3]
  note c4 = t[of "''Fancy''", THEN conjunct2, THEN conjunct2, THEN conjunct2, THEN conjunct1, rule_format, OF h4]
  note c5 = t[of "''Bold''", THEN conjunct2, THEN conjunct2, THEN conjunct2, THEN conjunct2, rule_format, OF h5]
  show ?thesis by (intro conjI c1 c2 c3 c4 c5)
qed

text \<open>
  The claim as stated fails: "Bold" has weight 400 in the earlier plugin, and a name with
  "semibold" that also contains "thin" has weight 100 in the later one.
\<close>

theorem convertFontWeight_claim_counterexample:
  "fontWeight_earlier (Some ''Bold'') = Some (Fin 400) \<and>
   str_includes (toLowerCase ''Thin SemiBold'') ''semibold'' \<and>
   convertFontWeight ''Thin SemiBold'' = Fin 100"
  by code_simp

section \<open>Properties of style objects\<close>

lemma map_of_replace:
  "map_of (map (\<lambda>kv. if fst kv = k' then (k', v) else kv) st) k =
     (if k = k' then (if map_of st k' = None then None else Some v) else map_of st k)"
  by (induction st) auto

lemma obj_get_Nil: "obj_get k [] = None"
  by (simp add: obj_get_def)

lemma obj_get_Cons: "obj_get k (kv # st) = (if k = fst kv then Some (snd kv) else obj_get k st)"
  by (cases kv) (simp add: obj_get_def)

lemma obj_get_obj_set: "obj_get k (obj_set k' v st) = (if k = k' then Some v else obj_get k st)"
proof (cases "k' \<in> fst ` set st")
  case True
  then have "map_of st k' \<noteq> None" by (simp add: map_of_eq_None_iff)
  with True show ?thesis by (auto simp: obj_get_def obj_set_def map_of_replace)
next
  case False
  then have "map_of st k' = None" by (simp add: map_of_eq_None_iff)
  with False show ?thesis by (auto simp: obj_get_def obj_set_def map_add_def split: option.split)
qed

lemma obj_get_obj_delete: "obj_get k (obj_delete k' st) = (if k = k' then None else obj_get k st)"
  by (induction st) (auto simp: obj_get_def obj_delete_def)

lemma obj_get_obj_spread:
  "k \<notin> fst ` set src \<Longrightarrow> obj_get k (obj_spread src st) = obj_get k st"
proof -
  have "k \<notin> fst ` set src \<Longrightarrow> obj_get k (fold (\<lambda>kv. obj_set (fst kv) (snd kv)) src st) = obj_get k st"
    by (induction src arbitrary: st) (auto simp: obj_get_obj_set)
  then show "k \<notin> fst ` set src \<Longrightarrow> ?thesis" by (simp add: obj_spread_def)
qed

lemma obj_get_set_if: "k \<noteq> k' \<Longrightarrow> obj_get k (set_if v k' st) = obj_get k st"
  by (simp add: set_if_def obj_get_obj_set)

lemma keys_background: "fst ` set (getBackgroundStyle fills) \<subseteq> {''backgroundColor''}"
  by (auto simp: getBackgroundStyle_def split: list.splits if_splits)

lemma keys_border:
  "fst ` set (getBorderStyle strokes) \<subseteq> {''borderWidth'', ''borderStyle'', ''borderColor''}"
  by (auto simp: getBorderStyle_def split: list.splits if_splits)

lemma keys_effects: "fst ` set (getEffectStyles effects) \<subseteq> {''boxShadow''}"
  by (auto simp: getEffectStyles_def Let_def split: if_splits)

lemma spread_background: "k \<noteq> ''backgroundColor'' \<Longrightarrow> obj_get k (obj_spread (getBackgroundStyle fills) st) = obj_get k st"
  using keys_background[of fills] by (intro obj_get_obj_spread) auto

lemma spread_border:
  "k \<noteq> ''borderWidth'' \<Longrightarrow> k \<noteq> ''borderStyle'' \<Longrightarrow> k \<noteq> ''borderColor'' \<Longrightarrow>
     obj_get k (obj_spread (getBorderStyle strokes) st) = obj_get k st"
  using keys_border[of strokes] by (intro obj_get_obj_spread) auto

lemma spread_effects: "k \<noteq> ''boxShadow'' \<Longrightarrow> obj_get k (obj_spread (getEffectStyles effects) st) = obj_get k st"
  using keys_effects[of effects] by (intro obj_get_obj_spread) auto

lemma spread_Nil: "obj_spread [] st = st"
  by (simp add: obj_spread_def)

lemmas style_frame = obj_get_Nil obj_get_Cons obj_get_obj_set obj_get_obj_delete obj_get_set_if spread_background
  spread_border spread_effects spread_Nil

section \<open>Properties of the positions\<close>

text \<open>
  C1. The card is a root frame at (-50, -10) with one text child at (10, 10). The roots
  are generated from it with the origin (50, 10), the absolute values of the root's
  negative coordinates, and the root hands this origin to its child. The child's position
  is its coordinates minus the origin: it is emitted at left -40px and top 0px. The offset
  is subtracted where it was to be added, which would place the child at (60, 20), and
  the emitted left position is negative.
\<close>

theorem negative_root_child_position:
  "generateComponentCode Some (Arr [card]) ''Card'' =
     component_text ''Card'' (fst (generateNodeComponent Some card 0 50 10 0)) \<and>
   fst (generateNodeComponent Some card 0 50 10 0) =
     ''    <div'' @ [NL] @
     ''      key='' @ dq ''node_0'' @ [NL] @
     ''      style={{'' @ [NL] @
     ''        width: '' @ sq ''300px'' @ '','' @ [NL] @
     ''        height: '' @ sq ''120px'' @ '','' @ [NL] @
     ''        position: '' @ sq ''relative'' @ '','' @ [NL] @
     ''        opacity: '' @ sq ''1'' @ '','' @ [NL] @
     ''        display: '' @ sq ''block'' @ [NL] @
     ''      }}'' @ [NL] @
     ''    >'' @ [NL] @
     ''          <span'' @ [NL] @
     ''            key='' @ dq ''node_1'' @ [NL] @
     ''            style={{'' @ [NL] @
     ''              width: '' @ sq ''40px'' @ '','' @ [NL] @
     ''              height: '' @ sq ''20px'' @ '','' @ [NL] @
     ''              position: '' @ sq ''absolute'' @ '','' @ [NL] @
     ''              opacity: '' @ sq ''1'' @ '','' @ [NL] @
     ''              display: '' @ sq ''block'' @ '','' @ [NL] @
     ''              left: '' @ sq ''-40px'' @ '','' @ [NL] @
     ''              top: '' @ sq ''0px'' @ [NL] @
     ''            }}'' @ [NL] @
     ''    >'' @ [NL] @
     [NL] @
     ''              <span style={{'' @ [NL] @
     ''                fontSize: '' @ sq ''14px'' @ '','' @ [NL] @
     ''                fontWeight: '' @ sq ''400'' @ [NL] @
     ''              }}>'' @ [NL] @
     ''                Hi!'' @ [NL] @
     ''              </span>          </span>    </div>'' \<and>
   childrenX card_props True 50 = 50 \<and>
   childrenY card_props True 10 = 10 \<and>
   relativeX label_props False 50 = - 40 \<and>
   relativeY label_props False 10 = 0 \<and>
   obj_get ''left'' (styles_of label_props False 50 10) = Some (SStr ''-40px'') \<and>
   obj_get ''top'' (styles_of label_props False 50 10) = Some (SStr ''0px'') \<and>
   str_includes (generateComponentCode Some (Arr [card]) ''Card'') (''left: '' @ sq ''-40px'') \<and>
   str_includes (generateComponentCode Some (Arr [card]) ''Card'') (''top: '' @ sq ''0px'') \<and>
   \<not> str_includes (generateComponentCode Some (Arr [card]) ''Card'') (''left: '' @ sq ''60px'') \<and>
   \<not> str_includes (generateComponentCode Some (Arr [card]) ''Card'') (''top: '' @ sq ''20px'')"
  by code_simp

section \<open>Properties of the emitted markup\<close>


lemma str_includes_prefixI: "str_includes (t @ s) t"
proof (cases "t @ s")
  case Nil
  then show ?thesis by simp
next
  case (Cons a list)
  then have "prefix t (a # list)" by (metis prefixI)
  then show ?thesis using Cons by simp
qed

lemma str_includes_appendI: "str_includes s t \<Longrightarrow> str_includes (p @ s) t"
  by (induction p) auto


lemma node_markup_children:
  "str_includes (node_markup dec p depth parentX parentY nodeId True childrenContent) childrenContent"
  unfolding node_markup_def Let_def
  apply (simp only: not_True_eq_False simp_thms if_False)
  apply (rule str_includes_appendI)
  apply (rule str_includes_appendI)
  apply (rule str_includes_appendI)
  apply (rule str_includes_appendI)
  apply (rule str_includes_appendI)
  apply (rule str_includes_appendI)
  apply (rule str_includes_prefixI)
  done









section \<open>Properties of the shadow\<close>

lemma typography_boxShadow: "obj_get ''boxShadow'' (typography p st) = obj_get ''boxShadow'' st"
proof -
  have "obj_get ''boxShadow'' (ty_whiteSpace p s) = obj_get ''boxShadow'' s" for s
    by (simp add: ty_whiteSpace_def obj_get_obj_set)
  moreover have "obj_get ''boxShadow'' (ty_overflow p s) = obj_get ''boxShadow'' s" for s
    by (simp add: ty_overflow_def obj_get_obj_set)
  moreover have "obj_get ''boxShadow'' (ty_flex p s) = obj_get ''boxShadow'' s" for s
    by (simp add: ty_flex_def obj_get_obj_set)
  moreover have "obj_get ''boxShadow'' (ty_fontSize p s) = obj_get ''boxShadow'' s" for s
    by (simp add: ty_fontSize_def obj_get_obj_set)
  moreover have "obj_get ''boxShadow'' (ty_fontWeight p s) = obj_get ''boxShadow'' s" for s
    by (simp add: ty_fontWeight_def obj_get_obj_set)
  moreover have "obj_get ''boxShadow'' (ty_fontFamily p s) = obj_get ''boxShadow'' s" for s
    by (simp add: ty_fontFamily_def obj_get_obj_set)
  moreover have "obj_get ''boxShadow'' (ty_textAlign p s) = obj_get ''boxShadow'' s" for s
    by (simp add: ty_textAlign_def Let_def obj_get_obj_set)
  moreover have "obj_get ''boxShadow'' (ty_lineHeight p s) = obj_get ''boxShadow'' s" for s
    by (simp add: ty_lineHeight_def obj_get_obj_set split: option.split measure_val.split)
  moreover have "obj_get ''boxShadow'' (ty_letterSpacing p s) = obj_get ''boxShadow'' s" for s
    by (simp add: ty_letterSpacing_def obj_get_obj_set split: option.split measure_val.split)
  ultimately show ?thesis by (simp add: typography_def)
qed

lemma cs_radius_boxShadow: "obj_get ''boxShadow'' (cs_radius p st) = obj_get ''boxShadow'' st"
  by (simp add: cs_radius_def obj_get_obj_set)

lemma cs_before_boxShadow:
  "obj_get ''boxShadow'' (cs_strokes p (cs_fills p (cs_rotation p (cs_base p)))) = None"
  by (simp add: cs_strokes_def cs_fills_def cs_rotation_def cs_base_def style_frame
      split: list.split)

lemma obj_spread_single: "obj_spread [kv] st = obj_set (fst kv) (snd kv) st"
  by (simp add: obj_spread_def)

lemma styles_of_boxShadow:
  "obj_get ''boxShadow'' (styles_of p isRoot parentX parentY) =
     (if filter visible_drop_shadow (n_effects p) = [] then None
      else Some (SStr (join '', '' (map shadow_css (filter visible_drop_shadow (n_effects p))))))"
  by (simp add: styles_of_def Let_def getEffectStyles_def obj_spread_single style_frame)

lemma rgbToColor_None: "rgbToColor None opacity = ''transparent''"
  by (simp add: rgbToColor_def)

text \<open>
  C7, as the code has it. In the server with fonts the box shadow is that of the first
  visible drop shadow, and there is none without such a shadow; its colour is the shadow's
  own at half opacity, and transparent when the shadow has no colour. In the server with
  node identifiers the box shadow of a node lists every visible drop shadow, in order,
  separated by commas;
  the colour of a shadow is its own at full opacity, and black at a quarter alpha when it
  has none.
\<close>

theorem box_shadow:
  "(find visible_drop_shadow (n_effects p) = Some sh \<and> e_offset sh = Some xy \<longrightarrow>
      (\<exists>st. getCommonStyles p = Inr st \<and>
            obj_get ''boxShadow'' st = Some (SStr (boxShadow_of sh xy)))) \<and>
   (find visible_drop_shadow (n_effects p) = None \<longrightarrow>
      (\<exists>st. getCommonStyles p = Inr st \<and> obj_get ''boxShadow'' st = None)) \<and>
   boxShadow_of sh xy =
      opt_num_str (fst xy) @ ''px '' @ opt_num_str (snd xy) @ ''px '' @
      opt_num_str (e_radius sh) @ ''px '' @
      (if e_color sh = None then ''transparent'' else rgbToColor (e_color sh) (Some (1 / 2))) \<and>
   obj_get ''boxShadow'' (styles_of q isRoot parentX parentY) =
      (if filter visible_drop_shadow (n_effects q) = [] then None
       else Some (SStr (join '', '' (map shadow_css (filter visible_drop_shadow (n_effects q)))))) \<and>
   shadow_css e =
      px (num_or (case e_offset e of None \<Rightarrow> None | Some xy \<Rightarrow> fst xy) 0) @ '' '' @
      px (num_or (case e_offset e of None \<Rightarrow> None | Some xy \<Rightarrow> snd xy) 0) @ '' '' @
      px (num_or (e_radius e) 0) @ '' '' @
      (if e_color e = None then ''rgba(0, 0, 0, 0.25)'' else rgbToColor (e_color e) (Some 1))"
proof -
  have a: "find visible_drop_shadow (n_effects p) = Some sh \<and> e_offset sh = Some xy \<longrightarrow>
      (\<exists>st. getCommonStyles p = Inr st \<and>
            obj_get ''boxShadow'' st = Some (SStr (boxShadow_of sh xy)))"
    by (simp add: getCommonStyles_def cs_effects_def cs_radius_boxShadow typography_boxShadow
        obj_get_obj_set)
  have b: "find visible_drop_shadow (n_effects p) = None \<longrightarrow>
      (\<exists>st. getCommonStyles p = Inr st \<and> obj_get ''boxShadow'' st = None)"
    by (simp add: getCommonStyles_def cs_effects_def cs_radius_boxShadow typography_boxShadow
        cs_before_boxShadow)
  have c: "boxShadow_of sh xy =
      opt_num_str (fst xy) @ ''px '' @ opt_num_str (snd xy) @ ''px '' @
      opt_num_str (e_radius sh) @ ''px '' @
      (if e_color sh = None then ''transparent'' else rgbToColor (e_color sh) (Some (1 / 2)))"
    by (simp add: boxShadow_of_def rgbToColor_None)
  note d = styles_of_boxShadow[of q isRoot parentX parentY]
  have e: "shadow_css e =
      px (num_or (case e_offset e of None \<Rightarrow> None | Some xy \<Rightarrow> fst xy) 0) @ '' '' @
      px (num_or (case e_offset e of None \<Rightarrow> None | Some xy \<Rightarrow> snd xy) 0) @ '' '' @
      px (num_or (e_radius e) 0) @ '' '' @
      (if e_color e = None then ''rgba(0, 0, 0, 0.25)'' else rgbToColor (e_color e) (Some 1))"
    by (simp add: shadow_css_def Let_def)
  show ?thesis using a b c d e by blast
qed

theorem box_shadow_witness:
  "(\<exists>st. getCommonStyles shadow_props = Inr st \<and>
         obj_get ''boxShadow'' st = Some (SStr (boxShadow_of plain_shadow (Some 0, Some 4)))) \<and>
   (\<exists>st. getCommonStyles blank = Inr st \<and> obj_get ''boxShadow'' st = None)"
proof -
  have h1: "find visible_drop_shadow (n_effects shadow_props) = Some plain_shadow \<and>
            e_offset plain_shadow = Some (Some 0, Some 4)"
    by (simp add: shadow_props_def blank_def plain_shadow_def red_shadow_def
        visible_drop_shadow_def truthy_bool_def)
  have h2: "find visible_drop_shadow (n_effects blank) = None"
    by (simp add: blank_def)
  show ?thesis
    using box_shadow[where p = shadow_props and sh = plain_shadow and xy = "(Some 0, Some 4)",
        THEN conjunct1, rule_format, OF h1]
      box_shadow[where p = blank, THEN conjunct2, THEN conjunct1, rule_format, OF h2]
    by blast
qed

text \<open>
  The claim as stated fails: the shadow without a colour is transparent in the server with
  fonts, and black at a quarter alpha in the server with node identifiers, which emits
  both visible shadows.
\<close>

theorem box_shadow_counterexample:
  "getCommonStyles shadow_props =
     Inr [(''position'', SStr ''absolute''), (''left'', SStr ''0px''), (''top'', SStr ''0px''),
          (''width'', SStr ''0px''), (''height'', SStr ''0px''),
          (''boxShadow'', SStr ''0px 4px 4px transparent'')] \<and>
   getEffectStyles [plain_shadow, red_shadow] =
     [(''boxShadow'', SStr ''0px 4px 4px rgba(0, 0, 0, 0.25), 1px 2px 3px rgb(255, 0, 0)'')]"
  by code_simp

section \<open>Properties of a compilation\<close>

lemma counter_advance:
  "snd (generateNodeComponent dec n depth parentX parentY c) = c + node_count n"
  "snd (generateNodeComponents dec ns depth parentX parentY c) = c + nodes_count ns"
  by (induction dec n depth parentX parentY c and dec ns depth parentX parentY c
      rule: generateNodeComponent_generateNodeComponents.induct)
    (simp_all add: Let_def)

lemma componentPath_distinct:
  "componentPath_of d \<noteq> COMPONENTS_DIR @ ''/'' @ componentName_of d @ ''.css''"
  "componentPath_of d \<noteq> SRC_DIR @ ''/App.js''"
  "componentPath_of d \<noteq> SRC_DIR @ ''/App.jsx''"
  by (simp_all add: componentPath_of_def COMPONENTS_DIR_def SRC_DIR_def)

lemma post_generate_component_ok:
  assumes "createReactApp scaffold fs = Inr fs1"
  shows "fst (post_generate_component scaffold dec fs (Some d)) =
           Response 200
             [(''success'', JBool True),
              (''message'', JString (''Component '' @ componentName_of d @
                 '' generated successfully! Run '' @ sq ''npm start'' @
                 '' in the react-app directory.'')),
              (''componentPath'', JString (componentPath_of d))]"
    and "snd (post_generate_component scaffold dec fs (Some d)) (componentPath_of d) =
           Some (File (generateComponentCode dec d (componentName_of d)))"
  using assms componentPath_distinct[of d]
  by (simp_all add: post_generate_component_def Let_def writeFile_def)

text \<open>Occurrence as a substring.\<close>

lemma str_includes_sublist: "str_includes s t = sublist t s"
  by (induction s) (simp_all add: sublist_Cons_right)

lemma str_includes_trans: "str_includes s t \<Longrightarrow> str_includes t u \<Longrightarrow> str_includes s u"
  unfolding str_includes_sublist using sublist_order.order.trans by blast

lemma str_includes_mid: "str_includes (a @ t @ b) t"
  unfolding str_includes_sublist by (rule sublist_appendI)

lemma str_includes_join: "w \<in> set ws \<Longrightarrow> str_includes (join sep ws) w"
proof (cases ws)
  case Nil
  assume "w \<in> set ws"
  then show ?thesis using Nil by simp
next
  case (Cons v vs)
  assume m: "w \<in> set ws"
  have "w \<in> set u \<Longrightarrow> sublist w (concat (map (\<lambda>v. sep @ v) u))" for u
    by (induction u) (auto simp: sublist_append)
  then show ?thesis using m Cons
    by (auto simp: str_includes_sublist sublist_append)
qed

text \<open>The functions on the store compute what the functions on the value of the counter compute.\<close>

lemma roots_advance: "snd (generateRoots dec ns c) = c + nodes_count ns"
  by (induction ns arbitrary: c) (simp_all add: Let_def counter_advance)

lemma store_refines:
  "generateNodeComponent_s dec a n depth parentX parentY h =
     (fst (generateNodeComponent dec n depth parentX parentY (cells h a)),
      h\<lparr>cells := (cells h)(a := snd (generateNodeComponent dec n depth parentX parentY (cells h a)))\<rparr>)"
  "generateNodeComponents_s dec a ns depth parentX parentY h =
     (fst (generateNodeComponents dec ns depth parentX parentY (cells h a)),
      h\<lparr>cells := (cells h)(a := snd (generateNodeComponents dec ns depth parentX parentY (cells h a)))\<rparr>)"
  by (induction dec a n depth parentX parentY h and dec a ns depth parentX parentY h
      rule: generateNodeComponent_s_generateNodeComponents_s.induct)
    (simp_all add: Let_def incr_cell_def fun_upd_def cong: if_cong)

lemma roots_refines:
  "generateRoots_s dec a ns h =
     (fst (generateRoots dec ns (cells h a)),
      h\<lparr>cells := (cells h)(a := snd (generateRoots dec ns (cells h a)))\<rparr>)"
  by (induction ns arbitrary: h) (simp_all add: Let_def store_refines)

lemma code_refines:
  "generateComponentCode_s dec data componentName h =
     (generateComponentCode dec data componentName,
      h\<lparr>next_cell := next_cell h + 1,
        cells := (cells h)(next_cell h := nodes_count (components_of data))\<rparr>)"
  by (simp add: generateComponentCode_s_def generateComponentCode_def Let_def alloc_def
      roots_refines roots_advance)

text \<open>Where the identifier, the content and the text are in the markup of a node.\<close>

lemma node_markup_key:
  "str_includes (node_markup dec p depth parentX parentY nodeId hc cc) (''key='' @ dq nodeId)"
proof -
  let ?pre = "concat (replicate depth (sp 6)) @ sp 4 @ ''<'' @
              (if n_type p = ''TEXT'' then ''span'' else ''div'') @ [NL] @
              concat (replicate depth (sp 6)) @ sp 6"
  have "\<exists>post. node_markup dec p depth parentX parentY nodeId hc cc =
          ?pre @ (''key='' @ dq nodeId) @ post"
    unfolding node_markup_def Let_def by simp
  then obtain post where "node_markup dec p depth parentX parentY nodeId hc cc =
          ?pre @ (''key='' @ dq nodeId) @ post" by blast
  then show ?thesis using str_includes_mid[of ?pre "''key='' @ dq nodeId" post] by simp
qed

lemma content_text:
  "n_type p = ''TEXT'' \<Longrightarrow> truthy_str (n_textContent p) \<Longrightarrow>
   str_includes (content_of dec p indent) (replaceAll SQ [BS, SQ] (str_of (n_textContent p)))"
proof -
  assume a: "n_type p = ''TEXT''" "truthy_str (n_textContent p)"
  let ?t = "replaceAll SQ [BS, SQ] (str_of (n_textContent p))"
  have "\<exists>pre post. content_of dec p indent = pre @ ?t @ post"
  proof (cases "style_lines (indent @ sp 10) (textStyles p) = []")
    case True
    then have "content_of dec p indent =
       ([NL] @ indent @ sp 8 @ ''<span>'' @ [NL] @ indent @ sp 10) @ ?t @
       ([NL] @ indent @ sp 8 @ ''</span>'')"
      using a by (simp add: content_of_def Let_def)
    then show ?thesis by blast
  next
    case False
    then have "content_of dec p indent =
       ([NL] @ indent @ sp 8 @ ''<span style={{'' @ [NL] @
        style_lines (indent @ sp 10) (textStyles p) @ [NL] @ indent @
        sp 8 @ ''}}>'' @ [NL] @ indent @ sp 10) @ ?t @
       ([NL] @ indent @ sp 8 @ ''</span>'')"
      using a by (simp add: content_of_def Let_def)
    then show ?thesis by blast
  qed
  then obtain pre post where "content_of dec p indent = pre @ ?t @ post" by blast
  then show ?thesis using str_includes_mid[of pre ?t post] by simp
qed

lemma node_markup_content:
  "content_of dec p (concat (replicate depth (sp 6))) \<noteq> [] \<Longrightarrow>
   str_includes (node_markup dec p depth parentX parentY nodeId hc cc)
     (content_of dec p (concat (replicate depth (sp 6))))"
proof -
  assume a: "content_of dec p (concat (replicate depth (sp 6))) \<noteq> []"
  let ?c = "content_of dec p (concat (replicate depth (sp 6)))"
  have "\<exists>pre post. node_markup dec p depth parentX parentY nodeId hc cc = pre @ ?c @ post"
  proof (cases "style_lines (concat (replicate depth (sp 6)) @ sp 8) (styles_of p (depth = 0) parentX parentY) = []")
    case True
    show ?thesis
      apply (rule exI[of _ "concat (replicate depth (sp 6)) @ sp 4 @ ''<'' @
              (if n_type p = ''TEXT'' then ''span'' else ''div'') @ [NL] @
              concat (replicate depth (sp 6)) @ sp 6 @ ''key='' @ dq nodeId @ [NL] @ sp 4 @ ''>'' @ [NL]"])
      apply (rule exI[of _ "cc @ concat (replicate depth (sp 6)) @ sp 4 @ ''</'' @
              (if n_type p = ''TEXT'' then ''span'' else ''div'') @ ''>''"])
      using a True unfolding node_markup_def Let_def by simp
  next
    case False
    show ?thesis
      apply (rule exI[of _ "concat (replicate depth (sp 6)) @ sp 4 @ ''<'' @
              (if n_type p = ''TEXT'' then ''span'' else ''div'') @ [NL] @
              concat (replicate depth (sp 6)) @ sp 6 @ ''key='' @ dq nodeId @
              [NL] @ concat (replicate depth (sp 6)) @ sp 6 @ ''style={{'' @ [NL] @
              style_lines (concat (replicate depth (sp 6)) @ sp 8) (styles_of p (depth = 0) parentX parentY) @
              [NL] @ concat (replicate depth (sp 6)) @ sp 6 @ ''}}'' @ [NL] @ sp 4 @ ''>'' @ [NL]"])
      apply (rule exI[of _ "cc @ concat (replicate depth (sp 6)) @ sp 4 @ ''</'' @
              (if n_type p = ''TEXT'' then ''span'' else ''div'') @ ''>''"])
      using a False unfolding node_markup_def Let_def by simp
  qed
  then obtain pre post where "node_markup dec p depth parentX parentY nodeId hc cc = pre @ ?c @ post" by blast
  then show ?thesis using str_includes_mid[of pre ?c post] by simp
qed

lemma generateNodeComponent_text:
  assumes "n_type p = ''TEXT''" "truthy_str (n_textContent p)"
  shows "str_includes (fst (generateNodeComponent dec (Node p chs) depth parentX parentY c))
           (replaceAll SQ [BS, SQ] (str_of (n_textContent p)))"
proof -
  let ?indent = "concat (replicate depth (sp 6))"
  have t: "str_includes (content_of dec p ?indent) (replaceAll SQ [BS, SQ] (str_of (n_textContent p)))"
    using assms by (rule content_text)
  have ne: "content_of dec p ?indent \<noteq> []"
    using assms by (simp add: content_of_def Let_def)
  have "\<And>nodeId hc cc. str_includes (node_markup dec p depth parentX parentY nodeId hc cc)
           (replaceAll SQ [BS, SQ] (str_of (n_textContent p)))"
    using node_markup_content[OF ne] t str_includes_trans by blast
  then show ?thesis by (cases chs) (simp_all add: Let_def)
qed

lemma generateNodeComponent_key:
  "str_includes (fst (generateNodeComponent dec n depth parentX parentY c)) (key_attr c)"
proof (cases n)
  case (Node p chs)
  then show ?thesis
    using node_markup_key[of dec p depth parentX parentY "''node_'' @ show_nat c"]
    by (cases chs) (simp_all add: Let_def key_attr_def)
qed

lemma identifiers_present:
  "c \<le> i \<Longrightarrow> i < c + node_count n \<Longrightarrow>
     str_includes (fst (generateNodeComponent dec n depth parentX parentY c)) (key_attr i)"
  "c \<le> i \<Longrightarrow> i < c + nodes_count ns \<Longrightarrow>
     \<exists>m \<in> set (fst (generateNodeComponents dec ns depth parentX parentY c)). str_includes m (key_attr i)"
proof (induction dec n depth parentX parentY c and dec ns depth parentX parentY c
      rule: generateNodeComponent_generateNodeComponents.induct)
  case (1 dec p depth parentX parentY nodeCounter)
  then have "i = nodeCounter" by simp
  then show ?case using generateNodeComponent_key[of dec "Node p None" depth parentX parentY nodeCounter]
    by simp
next
  case (2 dec p ch depth parentX parentY nodeCounter)
  show ?case
  proof (cases "i = nodeCounter")
    case True
    then show ?thesis
      using generateNodeComponent_key[of dec "Node p (Some ch)" depth parentX parentY nodeCounter]
      by simp
  next
    case False
    let ?r = "generateNodeComponents dec ch (depth + 1)
                (childrenX p (depth = 0) parentX) (childrenY p (depth = 0) parentY)
                (nodeCounter + 1)"
    from False 2(2,3) have r: "nodeCounter + 1 \<le> i" "i < nodeCounter + 1 + nodes_count ch"
      by simp_all
    then have ne: "ch \<noteq> []" by (cases ch) simp_all
    from 2(1)[OF r] obtain m where m: "m \<in> set (fst ?r)" "str_includes m (key_attr i)"
      by blast
    have "str_includes (join [NL] (fst ?r)) m" using m(1) by (rule str_includes_join)
    then have j: "str_includes (join [NL] (fst ?r)) (key_attr i)"
      using m(2) str_includes_trans by blast
    have "str_includes (node_markup dec p depth parentX parentY (''node_'' @ show_nat nodeCounter)
            True (join [NL] (fst ?r))) (join [NL] (fst ?r))"
      by (rule node_markup_children)
    then have "str_includes (node_markup dec p depth parentX parentY (''node_'' @ show_nat nodeCounter)
            True (join [NL] (fst ?r))) (key_attr i)"
      using j str_includes_trans by blast
    then show ?thesis using ne by (simp add: Let_def)
  qed
next
  case (3 dec depth parentX parentY nodeCounter)
  then show ?case by simp
next
  case (4 dec c cs depth parentX parentY nodeCounter)
  let ?r1 = "generateNodeComponent dec c depth parentX parentY nodeCounter"
  show ?case
  proof (cases "i < nodeCounter + node_count c")
    case True
    from 4(1)[OF 4(3) True] show ?thesis by (simp add: Let_def)
  next
    case False
    have s: "snd ?r1 = nodeCounter + node_count c" by (rule counter_advance)
    from False 4(4) have "snd ?r1 \<le> i" "i < snd ?r1 + nodes_count cs"
      unfolding s by simp_all
    from 4(2)[OF refl this] show ?thesis by (simp add: Let_def)
  qed
qed

lemma roots_identifiers:
  "c \<le> i \<Longrightarrow> i < c + nodes_count ns \<Longrightarrow>
     \<exists>m \<in> set (fst (generateRoots dec ns c)). str_includes m (key_attr i)"
proof (induction ns arbitrary: c)
  case Nil
  then show ?case by simp
next
  case (Cons n ns)
  let ?ox = "(if (case n_x (props_of n) of Some x \<Rightarrow> x | None \<Rightarrow> 0) < 0
              then \<bar>case n_x (props_of n) of Some x \<Rightarrow> x | None \<Rightarrow> 0\<bar> else 0)"
  let ?oy = "(if (case n_y (props_of n) of Some y \<Rightarrow> y | None \<Rightarrow> 0) < 0
              then \<bar>case n_y (props_of n) of Some y \<Rightarrow> y | None \<Rightarrow> 0\<bar> else 0)"
  let ?r1 = "generateNodeComponent dec n 0 ?ox ?oy c"
  show ?case
  proof (cases "i < c + node_count n")
    case True
    from identifiers_present(1)[OF Cons(2) True, of dec 0 ?ox ?oy]
    show ?thesis by (simp add: Let_def)
  next
    case False
    have s: "snd ?r1 = c + node_count n" by (rule counter_advance)
    from False Cons(3) have "snd ?r1 \<le> i" "i < snd ?r1 + nodes_count ns"
      unfolding s by simp_all
    from Cons(1)[OF this] show ?thesis by (simp add: Let_def)
  qed
qed

lemma component_text_main: "str_includes (component_text componentName mainComponent) mainComponent"
proof -
  have "\<exists>pre post. component_text componentName mainComponent = pre @ mainComponent @ post"
    apply (rule exI[of _ "''import React from '' @ sq ''react'' @ '';'' @ [NL] @
     ''import '' @ sq (''./'' @ componentName @ ''.css'') @ '';'' @ [NL] @ [NL] @
     ''const '' @ componentName @ '' = () => {'' @ [NL] @
     ''  return ('' @ [NL] @
     ''    <div className='' @ dq (toLowerCase componentName @ ''-container'') @ ''>'' @ [NL]"])
    apply (rule exI[of _ "[NL] @
     ''    </div>'' @ [NL] @
     ''  );'' @ [NL] @
     ''};'' @ [NL] @ [NL] @
     ''export default '' @ componentName @ '';'' @ [NL]"])
    by (simp add: component_text_def)
  then obtain pre post where "component_text componentName mainComponent = pre @ mainComponent @ post"
    by blast
  then show ?thesis using str_includes_mid[of pre mainComponent post] by simp
qed

lemma code_identifiers:
  assumes "i < nodes_count (components_of data)"
  shows "str_includes (generateComponentCode dec data componentName) (key_attr i)"
proof -
  let ?r = "generateRoots dec (components_of data) 0"
  from roots_identifiers[of 0 i "components_of data" dec] assms
  obtain m where m: "m \<in> set (fst ?r)" "str_includes m (key_attr i)" by auto
  have "str_includes (join [NL] (fst ?r)) m" using m(1) by (rule str_includes_join)
  then have "str_includes (join [NL] (fst ?r)) (key_attr i)"
    using m(2) str_includes_trans by blast
  then have "str_includes (component_text componentName (join [NL] (fst ?r))) (key_attr i)"
    using component_text_main str_includes_trans by blast
  then show ?thesis by (simp add: generateComponentCode_def Let_def)
qed

lemma children_length:
  "length (fst (generateNodeComponents dec ns depth parentX parentY c)) = length ns"
  by (induction ns arbitrary: c) (simp_all add: Let_def)

lemma children_order:
  "k < length ns \<Longrightarrow>
     fst (generateNodeComponents dec ns depth parentX parentY c) ! k =
       fst (generateNodeComponent dec (ns ! k) depth parentX parentY (c + nodes_count (take k ns)))"
proof (induction ns arbitrary: k c)
  case Nil
  then show ?case by simp
next
  case (Cons n ns)
  show ?case
  proof (cases k)
    case 0
    then show ?thesis by (simp add: Let_def)
  next
    case (Suc j)
    then have "j < length ns" using Cons(2) by simp
    from Cons(1)[OF this] show ?thesis
      using Suc by (simp add: Let_def counter_advance add.assoc)
  qed
qed

text \<open>Two numbers print differently, and the counter shows in the markup.\<close>

lemma digit_char_val: "k < 10 \<Longrightarrow> of_char (digit_char k) = 48 + k"
proof -
  assume "k < 10"
  then have "k \<in> {0, 1, 2, 3, 4, 5, 6, 7, 8, 9}" by auto
  then show ?thesis by (auto simp: digit_char_def)
qed

lemma digit_char_not_DQ: "k < 10 \<Longrightarrow> digit_char k \<noteq> DQ"
proof -
  assume "k < 10"
  then have "k \<in> {0, 1, 2, 3, 4, 5, 6, 7, 8, 9}" by auto
  then show ?thesis by (auto simp: digit_char_def)
qed

lemma digits_val_show_nat: "digits_val (show_nat n) = n"
proof (induction n rule: show_nat.induct)
  case (1 n)
  show ?case
  proof (cases "n < 10")
    case True
    then show ?thesis by (subst show_nat.simps) (simp add: digit_char_val)
  next
    case False
    have "digits_val (show_nat n) =
            10 * digits_val (show_nat (n div 10)) + (of_char (digit_char (n mod 10)) - 48)"
      using False by (subst show_nat.simps) simp
    also have "\<dots> = 10 * (n div 10) + n mod 10"
      using 1[OF False] digit_char_val[of "n mod 10"] by simp
    finally show ?thesis by simp
  qed
qed

lemma show_nat_inj: "show_nat i = show_nat j \<Longrightarrow> i = j"
  using digits_val_show_nat[of i] digits_val_show_nat[of j] by simp

lemma show_nat_no_DQ: "DQ \<notin> set (show_nat n)"
proof (induction n rule: show_nat.induct)
  case (1 n)
  show ?case
  proof (cases "n < 10")
    case True
    then show ?thesis using digit_char_not_DQ[of n] by (subst show_nat.simps) auto
  next
    case False
    then show ?thesis using 1[OF False] digit_char_not_DQ[of "n mod 10"]
      by (subst show_nat.simps) auto
  qed
qed

lemma key_attr_inj: "(key_attr i = key_attr j) = (i = j)"
  using show_nat_inj by (auto simp: key_attr_def dq_def)

lemma until_DQ:
  "DQ \<notin> set xs \<Longrightarrow> DQ \<notin> set ys \<Longrightarrow> xs @ DQ # r = ys @ DQ # r' \<Longrightarrow> xs = ys"
proof (induction xs arbitrary: ys)
  case Nil
  then show ?case by (cases ys) auto
next
  case (Cons x xs)
  then show ?case by (cases ys) auto
qed

lemma node_markup_shape:
  "\<exists>post. node_markup dec p depth parentX parentY (''node_'' @ show_nat c) hc cc =
      (concat (replicate depth (sp 6)) @ sp 4 @ ''<'' @
       (if n_type p = ''TEXT'' then ''span'' else ''div'') @ [NL] @
       concat (replicate depth (sp 6)) @ sp 6 @ ''key='' @ [DQ] @ ''node_'') @
      show_nat c @ DQ # post"
  unfolding node_markup_def Let_def by (simp add: dq_def)

lemma node_markup_counter:
  assumes "node_markup dec p depth parentX parentY (''node_'' @ show_nat c) hc cc =
           node_markup dec p depth parentX parentY (''node_'' @ show_nat c') hc' cc'"
  shows "c = c'"
proof -
  let ?pre = "concat (replicate depth (sp 6)) @ sp 4 @ ''<'' @
       (if n_type p = ''TEXT'' then ''span'' else ''div'') @ [NL] @
       concat (replicate depth (sp 6)) @ sp 6 @ ''key='' @ [DQ] @ ''node_''"
  obtain post where 1: "node_markup dec p depth parentX parentY (''node_'' @ show_nat c) hc cc =
      ?pre @ show_nat c @ DQ # post" using node_markup_shape by blast
  obtain post' where 2: "node_markup dec p depth parentX parentY (''node_'' @ show_nat c') hc' cc' =
      ?pre @ show_nat c' @ DQ # post'" using node_markup_shape by blast
  from assms 1 2 have "?pre @ show_nat c @ DQ # post = ?pre @ show_nat c' @ DQ # post'" by simp
  then have "show_nat c @ DQ # post = show_nat c' @ DQ # post'" by (simp only: same_append_eq)
  then have "show_nat c = show_nat c'" using until_DQ show_nat_no_DQ by blast
  then show ?thesis by (rule show_nat_inj)
qed

lemma counter_matters:
  "c \<noteq> c' \<Longrightarrow> fst (generateNodeComponent dec n depth parentX parentY c) \<noteq>
     fst (generateNodeComponent dec n depth parentX parentY c')"
proof (cases n)
  case (Node p chs)
  assume "c \<noteq> c'"
  then show ?thesis using Node node_markup_counter[of dec p depth parentX parentY c _ _ c']
    by (cases chs) (auto simp: Let_def)
qed

lemma roots_length: "length (fst (generateRoots dec ns c)) = length ns"
  by (induction ns arbitrary: c) (simp_all add: Let_def)

lemma roots_order:
  "k < length ns \<Longrightarrow>
     fst (generateRoots dec ns c) ! k =
       fst (generateNodeComponent dec (ns ! k) 0
              (if (case n_x (props_of (ns ! k)) of Some x \<Rightarrow> x | None \<Rightarrow> 0) < 0
               then \<bar>case n_x (props_of (ns ! k)) of Some x \<Rightarrow> x | None \<Rightarrow> 0\<bar> else 0)
              (if (case n_y (props_of (ns ! k)) of Some y \<Rightarrow> y | None \<Rightarrow> 0) < 0
               then \<bar>case n_y (props_of (ns ! k)) of Some y \<Rightarrow> y | None \<Rightarrow> 0\<bar> else 0)
              (c + nodes_count (take k ns)))"
proof (induction ns arbitrary: k c)
  case Nil
  then show ?case by simp
next
  case (Cons n ns)
  show ?case
  proof (cases k)
    case 0
    then show ?thesis by (simp add: Let_def)
  next
    case (Suc j)
    then have "j < length ns" using Cons(2) by simp
    from Cons(1)[OF this] show ?thesis
      using Suc by (simp add: Let_def counter_advance add.assoc)
  qed
qed

text \<open>The server with fonts: the order of the elements, and the text of a text node.\<close>

lemma elements_ok:
  "generateElements ns = Inr hs \<Longrightarrow>
     length hs = length ns \<and> (\<forall>k<length ns. generateElement (ns ! k) = Inr (hs ! k))"
proof (induction ns arbitrary: hs)
  case Nil
  then show ?case by simp
next
  case (Cons n ns)
  from Cons(2) obtain h hs' where g: "generateElement n = Inr h" "generateElements ns = Inr hs'"
      "hs = h # hs'"
    by (auto split: sum.splits)
  from Cons(1)[OF g(2)] g(1,3) show ?case by (auto simp: nth_Cons')
qed

lemma elements_fail:
  "generateElements ns = Inl e \<Longrightarrow> \<exists>j<length ns. generateElement (ns ! j) = Inl e"
proof (induction ns)
  case Nil
  then show ?case by simp
next
  case (Cons n ns)
  show ?case
  proof (cases "generateElement n")
    case (Inl e')
    then have "generateElement ((n # ns) ! 0) = Inl e" using Cons(2) by simp
    then show ?thesis by blast
  next
    case (Inr h)
    then have "generateElements ns = Inl e" using Cons(2) by (auto split: sum.splits)
    from Cons(1)[OF this] obtain j where "j < length ns" "generateElement (ns ! j) = Inl e" by blast
    then have "Suc j < length (n # ns)" "generateElement ((n # ns) ! Suc j) = Inl e" by simp_all
    then show ?thesis by blast
  qed
qed

lemma elements_order:
  "k < length ns \<Longrightarrow>
     (case generateElements ns of
        Inl e \<Rightarrow> (\<exists>j<length ns. generateElement (ns ! j) = Inl e)
      | Inr hs \<Rightarrow> length hs = length ns \<and> generateElement (ns ! k) = Inr (hs ! k))"
  using elements_ok[of ns] elements_fail[of ns] by (auto split: sum.splits)

lemma textElement_text:
  "str_includes (textElement p styles)
     (''{'' @ sq (escapeJSXText (case n_textContent p of None \<Rightarrow> [] | Some t \<Rightarrow> t)) @ ''}'')"
proof -
  let ?t = "''{'' @ sq (escapeJSXText (case n_textContent p of None \<Rightarrow> [] | Some t \<Rightarrow> t)) @ ''}''"
  have "\<exists>pre post. textElement p styles = pre @ ?t @ post"
  proof (cases "truthy_num (n_rotation p)")
    case True
    then have "textElement p styles =
      (''<div style={{'' @ styleObjectToString styles @ ''}}><span style={{display: '' @
           sq ''inline-block'' @ '', width: '' @ sq ''100%'' @ '', textAlign: '' @
           sq (textAlign_or_left styles) @ ''}}>'') @ ?t @ ''</span></div>''"
      by (simp add: textElement_def Let_def)
    then show ?thesis by blast
  next
    case False
    show ?thesis
    proof (cases "is_flex styles")
      case True
      then have "textElement p styles =
        (''<div style={{'' @ styleObjectToString styles @ ''}}><span style={{width: '' @ sq ''100%'' @
           '', textAlign: '' @ sq (textAlign_or_left styles) @ ''}}>'') @ ?t @ ''</span></div>''"
        using False by (simp add: textElement_def Let_def)
      then show ?thesis by blast
    next
      case nf: False
      then have "textElement p styles =
        (''<div style={{'' @ styleObjectToString styles @ ''}}>'') @ ?t @ ''</div>''"
        using False by (simp add: textElement_def Let_def)
      then show ?thesis by blast
    qed
  qed
  then obtain pre post where "textElement p styles = pre @ ?t @ post" by blast
  then show ?thesis using str_includes_mid[of pre ?t post] by simp
qed

lemma generateElement_text:
  "truthy_bool (n_visible p) \<Longrightarrow> n_type p = ''TEXT'' \<Longrightarrow>
     generateElement (Node p cs) =
       (case getCommonStyles p of Inl e \<Rightarrow> Inl e | Inr styles \<Rightarrow> Inr (textElement p styles))"
  by (simp add: leafElement_def split: sum.splits)

lemma generateComponent_children:
  "children rootNode = Some ch \<Longrightarrow>
     (case generateElements ch of
        Inl e \<Rightarrow> generateComponent (rootNode # rest) name fontCSS = Inl e
      | Inr hs \<Rightarrow>
          (\<exists>out. generateComponent (rootNode # rest) name fontCSS = Inr out \<and>
                 str_includes out (join [NL] hs)))"
proof (cases "generateElements ch")
  case (Inl e)
  assume "children rootNode = Some ch"
  then show ?thesis using Inl by (simp add: generateComponent_def Let_def)
next
  case (Inr hs)
  assume c: "children rootNode = Some ch"
  obtain out where t: "generateComponent (rootNode # rest) name fontCSS = Inr out"
    using c Inr by (simp add: generateComponent_def Let_def)
  have "\<exists>pre post. out = pre @ join [NL] hs @ post"
    using t c Inr unfolding generateComponent_def Let_def
    apply (simp only: list.case option.case sum.case)
    apply (drule Inr_inject)
    apply (rule exI[of _ "''import React from '' @ sq ''react'' @ '';'' @ [NL] @
                           ''import '' @ sq (''./'' @ name @ ''.css'') @ '';'' @ [NL] @ [NL] @
                           ''const '' @ name @ '' = () => {'' @ [NL] @
                           ''    return ('' @ [NL] @
                           ''        <div style={{'' @ [NL] @
                           ''            position: '' @ sq ''relative'' @ '','' @ [NL] @
                           ''            width: '' @ sq (px (n_width (props_of rootNode))) @ '','' @ [NL] @
                           ''            height: '' @ sq (px (n_height (props_of rootNode))) @ '','' @ [NL] @
                           ''            backgroundColor: '' @ sq (case n_fills (props_of rootNode) of
                          [] \<Rightarrow> ''transparent''
                        | fill # _ \<Rightarrow>
                            if f_type fill = ''SOLID''
                            then rgbToColor (f_color fill) (f_opacity fill) else ''transparent'') @ '','' @ [NL] @
                           ''            overflow: '' @ sq ''hidden'' @ '','' @ [NL] @
                           ''            margin: '' @ sq ''0 auto'' @ '' // Center it'' @ [NL] @
                           ''        }}>'' @ [NL] @
                           ''            ''"])
    apply (rule exI[of _ "[NL] @
                           ''        </div>'' @ [NL] @
                           ''    );'' @ [NL] @
                           ''};'' @ [NL] @ [NL] @
                           ''export default '' @ name @ '';'' @ [NL]"])
    by simp
  then obtain pre post where "out = pre @ join [NL] hs @ post" by blast
  then have "str_includes out (join [NL] hs)" using str_includes_mid[of pre "join [NL] hs" post] by simp
  then show ?thesis using t Inr by simp
qed

text \<open>
  C8. A call of \<open>generateComponentCode\<close> creates its counter with the value 0, so the text
  it returns is the same from every store, among them the store that an earlier call on
  the same data has left: it is the text computed with the counter passed as a value from
  0. The call leaves the store with one more cell, which holds the number of nodes. The
  value of the counter matters: the same node generated at two values of the counter
  gives two texts, and two numbers give two identifiers. The node with number \<open>i\<close> in the
  order of generation (a node before its children, the children from left to right, the
  roots in turn) carries the identifier \<open>node_i\<close>, and each of them occurs in the
  component. The markup of the children, and of the roots, is a list in the order of the
  input, the element \<open>k\<close> being generated with the counter advanced by the nodes of the
  trees before it. The content of a text node occurs in its markup with each single quote
  behind a backslash. Two requests with the same data, from any two states of the file
  system in which the project is provided, get the same response and write the same
  component. The server with fonts has no counter and no identifiers: \<open>generateComponent\<close>
  does not depend on the font style sheet, its text contains the elements of the root's
  children, which are a list in the order of the input, and the element of a visible text
  node contains the content as \<open>escapeJSXText\<close> escapes it, between single quotes.
\<close>

theorem compile_deterministic:
  "fst (generateComponentCode_s dec d name h) = generateComponentCode dec d name \<and>
   fst (generateComponentCode_s dec d name h') = fst (generateComponentCode_s dec d name h) \<and>
   fst (generateComponentCode_s dec d name (snd (generateComponentCode_s dec d name h))) =
     fst (generateComponentCode_s dec d name h) \<and>
   snd (generateComponentCode_s dec d name h) =
     h\<lparr>next_cell := next_cell h + 1,
       cells := (cells h)(next_cell h := nodes_count (components_of d))\<rparr> \<and>
   (c \<noteq> c' \<longrightarrow>
      fst (generateNodeComponent dec n depth parentX parentY c) \<noteq>
        fst (generateNodeComponent dec n depth parentX parentY c')) \<and>
   (key_attr i = key_attr j) = (i = j) \<and>
   (i < nodes_count (components_of d) \<longrightarrow>
      str_includes (generateComponentCode dec d name) (key_attr i)) \<and>
   length (fst (generateNodeComponents dec ns depth parentX parentY c)) = length ns \<and>
   (k < length ns \<longrightarrow>
      fst (generateNodeComponents dec ns depth parentX parentY c) ! k =
        fst (generateNodeComponent dec (ns ! k) depth parentX parentY
               (c + nodes_count (take k ns)))) \<and>
   length (fst (generateRoots dec ns c)) = length ns \<and>
   (k < length ns \<longrightarrow>
      fst (generateRoots dec ns c) ! k =
        fst (generateNodeComponent dec (ns ! k) 0
               (if (case n_x (props_of (ns ! k)) of Some x \<Rightarrow> x | None \<Rightarrow> 0) < 0
                then \<bar>case n_x (props_of (ns ! k)) of Some x \<Rightarrow> x | None \<Rightarrow> 0\<bar> else 0)
               (if (case n_y (props_of (ns ! k)) of Some y \<Rightarrow> y | None \<Rightarrow> 0) < 0
                then \<bar>case n_y (props_of (ns ! k)) of Some y \<Rightarrow> y | None \<Rightarrow> 0\<bar> else 0)
               (c + nodes_count (take k ns)))) \<and>
   (n_type p = ''TEXT'' \<and> truthy_str (n_textContent p) \<longrightarrow>
      str_includes (fst (generateNodeComponent dec (Node p chs) depth parentX parentY c))
        (replaceAll SQ [BS, SQ] (str_of (n_textContent p)))) \<and>
   (createReactApp scaffold fs = Inr fs1 \<and> createReactApp scaffold' fs' = Inr fs1' \<longrightarrow>
      fst (post_generate_component scaffold dec fs (Some d)) =
        fst (post_generate_component scaffold' dec fs' (Some d)) \<and>
      snd (post_generate_component scaffold dec fs (Some d)) (componentPath_of d) =
        Some (File (generateComponentCode dec d (componentName_of d))) \<and>
      snd (post_generate_component scaffold' dec fs' (Some d)) (componentPath_of d) =
        Some (File (generateComponentCode dec d (componentName_of d)))) \<and>
   snd (generateNodeComponent dec n depth parentX parentY c) = c + node_count n \<and>
   generateComponent data name fontCSS = generateComponent data name fontCSS' \<and>
   (k < length ns \<longrightarrow>
      (case generateElements ns of
         Inl e \<Rightarrow> (\<exists>j<length ns. generateElement (ns ! j) = Inl e)
       | Inr hs \<Rightarrow> length hs = length ns \<and> generateElement (ns ! k) = Inr (hs ! k))) \<and>
   (truthy_bool (n_visible p) \<and> n_type p = ''TEXT'' \<longrightarrow>
      generateElement (Node p chs) =
        (case getCommonStyles p of
           Inl e \<Rightarrow> Inl e
         | Inr styles \<Rightarrow> Inr (textElement p styles))) \<and>
   str_includes (textElement p styles)
     (''{'' @ sq (escapeJSXText (case n_textContent p of None \<Rightarrow> [] | Some t \<Rightarrow> t)) @ ''}'') \<and>
   (children rootNode = Some ch \<longrightarrow>
      (case generateElements ch of
         Inl e \<Rightarrow> generateComponent (rootNode # rest) name fontCSS = Inl e
       | Inr hs \<Rightarrow>
           (\<exists>out. generateComponent (rootNode # rest) name fontCSS = Inr out \<and>
                  str_includes out (join [NL] hs))))"
proof -
  have s: "generateComponentCode_s dec d name st =
             (generateComponentCode dec d name,
              st\<lparr>next_cell := next_cell st + 1,
                 cells := (cells st)(next_cell st := nodes_count (components_of d))\<rparr>)" for st
    by (rule code_refines)
  have a1: "fst (generateComponentCode_s dec d name h) = generateComponentCode dec d name"
    by (simp add: s)
  have a2: "fst (generateComponentCode_s dec d name h') = fst (generateComponentCode_s dec d name h)"
    by (simp add: s)
  have a3: "fst (generateComponentCode_s dec d name (snd (generateComponentCode_s dec d name h))) =
              fst (generateComponentCode_s dec d name h)"
    by (simp add: s)
  have a4: "snd (generateComponentCode_s dec d name h) =
              h\<lparr>next_cell := next_cell h + 1,
                cells := (cells h)(next_cell h := nodes_count (components_of d))\<rparr>"
    by (simp add: s)
  have a5: "c \<noteq> c' \<longrightarrow>
      fst (generateNodeComponent dec n depth parentX parentY c) \<noteq>
        fst (generateNodeComponent dec n depth parentX parentY c')"
    using counter_matters by blast
  have a6: "(key_attr i = key_attr j) = (i = j)"
    by (rule key_attr_inj)
  have a7: "i < nodes_count (components_of d) \<longrightarrow>
      str_includes (generateComponentCode dec d name) (key_attr i)"
    using code_identifiers by blast
  have a8: "length (fst (generateNodeComponents dec ns depth parentX parentY c)) = length ns"
    by (rule children_length)
  have a9: "k < length ns \<longrightarrow>
      fst (generateNodeComponents dec ns depth parentX parentY c) ! k =
        fst (generateNodeComponent dec (ns ! k) depth parentX parentY
               (c + nodes_count (take k ns)))"
    using children_order by blast
  have a10: "length (fst (generateRoots dec ns c)) = length ns"
    by (rule roots_length)
  have a11: "k < length ns \<longrightarrow>
      fst (generateRoots dec ns c) ! k =
        fst (generateNodeComponent dec (ns ! k) 0
               (if (case n_x (props_of (ns ! k)) of Some x \<Rightarrow> x | None \<Rightarrow> 0) < 0
                then \<bar>case n_x (props_of (ns ! k)) of Some x \<Rightarrow> x | None \<Rightarrow> 0\<bar> else 0)
               (if (case n_y (props_of (ns ! k)) of Some y \<Rightarrow> y | None \<Rightarrow> 0) < 0
                then \<bar>case n_y (props_of (ns ! k)) of Some y \<Rightarrow> y | None \<Rightarrow> 0\<bar> else 0)
               (c + nodes_count (take k ns)))"
    using roots_order by blast
  have a12: "n_type p = ''TEXT'' \<and> truthy_str (n_textContent p) \<longrightarrow>
      str_includes (fst (generateNodeComponent dec (Node p chs) depth parentX parentY c))
        (replaceAll SQ [BS, SQ] (str_of (n_textContent p)))"
    using generateNodeComponent_text by blast
  have a13: "createReactApp scaffold fs = Inr fs1 \<and> createReactApp scaffold' fs' = Inr fs1' \<longrightarrow>
      fst (post_generate_component scaffold dec fs (Some d)) =
        fst (post_generate_component scaffold' dec fs' (Some d)) \<and>
      snd (post_generate_component scaffold dec fs (Some d)) (componentPath_of d) =
        Some (File (generateComponentCode dec d (componentName_of d))) \<and>
      snd (post_generate_component scaffold' dec fs' (Some d)) (componentPath_of d) =
        Some (File (generateComponentCode dec d (componentName_of d)))"
    using post_generate_component_ok[of scaffold fs fs1 dec d]
      post_generate_component_ok[of scaffold' fs' fs1' dec d]
    by simp
  have a14: "snd (generateNodeComponent dec n depth parentX parentY c) = c + node_count n"
    by (rule counter_advance)
  have a15: "generateComponent data name fontCSS = generateComponent data name fontCSS'"
    by (simp add: generateComponent_def)
  have a16: "k < length ns \<longrightarrow>
      (case generateElements ns of
         Inl e \<Rightarrow> (\<exists>j<length ns. generateElement (ns ! j) = Inl e)
       | Inr hs \<Rightarrow> length hs = length ns \<and> generateElement (ns ! k) = Inr (hs ! k))"
    using elements_order by blast
  have a17: "truthy_bool (n_visible p) \<and> n_type p = ''TEXT'' \<longrightarrow>
      generateElement (Node p chs) =
        (case getCommonStyles p of
           Inl e \<Rightarrow> Inl e
         | Inr styles \<Rightarrow> Inr (textElement p styles))"
    using generateElement_text by blast
  have a18: "str_includes (textElement p styles)
     (''{'' @ sq (escapeJSXText (case n_textContent p of None \<Rightarrow> [] | Some t \<Rightarrow> t)) @ ''}'')"
    by (rule textElement_text)
  have a19: "children rootNode = Some ch \<longrightarrow>
      (case generateElements ch of
         Inl e \<Rightarrow> generateComponent (rootNode # rest) name fontCSS = Inl e
       | Inr hs \<Rightarrow>
           (\<exists>out. generateComponent (rootNode # rest) name fontCSS = Inr out \<and>
                  str_includes out (join [NL] hs)))"
    using generateComponent_children by blast
  show ?thesis
    by (intro conjI)
      (rule a1 a2 a3 a4 a5 a6 a7 a8 a9 a10 a11 a12 a13 a14 a15 a16 a17 a18 a19)+
qed

theorem compile_deterministic_witness:
  "fst (generateComponentCode_s Some (Arr [card]) ''Card''
          (snd (generateComponentCode_s Some (Arr [card]) ''Card'' empty_store))) =
     fst (generateComponentCode_s Some (Arr [card]) ''Card'' empty_store) \<and>
   fst (generateNodeComponent Some card 0 50 10 0) \<noteq> fst (generateNodeComponent Some card 0 50 10 1) \<and>
   str_includes (generateComponentCode Some (Arr [card]) ''Card'') (key_attr 1) \<and>
   fst (generateNodeComponents Some [Node label_props None] 1 50 10 1) ! 0 =
     fst (generateNodeComponent Some ([Node label_props None] ! 0) 1 50 10
            (1 + nodes_count (take 0 [Node label_props None]))) \<and>
   str_includes (fst (generateNodeComponent Some (Node label_props None) 1 50 10 1))
     (replaceAll SQ [BS, SQ] (str_of (n_textContent label_props))) \<and>
   fst (generateRoots Some [card] 0) ! 0 =
     fst (generateNodeComponent Some ([card] ! 0) 0
            (if (case n_x (props_of ([card] ! 0)) of Some x \<Rightarrow> x | None \<Rightarrow> 0) < 0
             then \<bar>case n_x (props_of ([card] ! 0)) of Some x \<Rightarrow> x | None \<Rightarrow> 0\<bar> else 0)
            (if (case n_y (props_of ([card] ! 0)) of Some y \<Rightarrow> y | None \<Rightarrow> 0) < 0
             then \<bar>case n_y (props_of ([card] ! 0)) of Some y \<Rightarrow> y | None \<Rightarrow> 0\<bar> else 0)
            (0 + nodes_count (take 0 [card]))) \<and>
   fst (post_generate_component Inr Some Map.empty (Some (Arr [card]))) =
     fst (post_generate_component Inr Some
            (snd (post_generate_component Inr Some Map.empty (Some (Arr [card]))))
            (Some (Arr [card]))) \<and>
   snd (post_generate_component Inr Some Map.empty (Some (Arr [card]))) (componentPath_of (Arr [card])) =
     Some (File (generateComponentCode Some (Arr [card]) (componentName_of (Arr [card])))) \<and>
   snd (post_generate_component Inr Some
          (snd (post_generate_component Inr Some Map.empty (Some (Arr [card]))))
          (Some (Arr [card]))) (componentPath_of (Arr [card])) =
     Some (File (generateComponentCode Some (Arr [card]) (componentName_of (Arr [card])))) \<and>
   (case generateElements [Node label_props None] of
      Inl e \<Rightarrow> (\<exists>j<length [Node label_props None]. generateElement ([Node label_props None] ! j) = Inl e)
    | Inr hs \<Rightarrow> length hs = length [Node label_props None] \<and>
        generateElement ([Node label_props None] ! 0) = Inr (hs ! 0)) \<and>
   generateElement (Node label_props None) =
     (case getCommonStyles label_props of
        Inl e \<Rightarrow> Inl e
      | Inr styles \<Rightarrow> Inr (textElement label_props styles)) \<and>
   (case generateElements [Node label_props None] of
      Inl e \<Rightarrow> generateComponent (card # []) ''Card'' [] = Inl e
    | Inr hs \<Rightarrow>
        (\<exists>out. generateComponent (card # []) ''Card'' [] = Inr out \<and>
               str_includes out (join [NL] hs)))"
proof -
  let ?fs' = "snd (post_generate_component Inr Some Map.empty (Some (Arr [card])))"
  let ?ns = "[Node label_props None]"
  note t = compile_deterministic[where dec = Some and d = "Arr [card]" and name = "''Card''"
      and h = empty_store and c = 0 and c' = 1 and n = card and depth = 0 and parentX = 50
      and parentY = 10 and i = 1 and scaffold = Inr and fs = Map.empty and ?fs1.0 = Map.empty
      and scaffold' = Inr and fs' = ?fs' and fs1' = ?fs' and rootNode = card and ch = ?ns
      and rest = "[]" and fontCSS = "[]"]
  note u = compile_deterministic[where dec = Some and ns = ?ns and k = 0 and depth = 1
      and parentX = 50 and parentY = 10 and c = 1 and p = label_props and chs = None]
  have h1: "(0::nat) \<noteq> 1" by simp
  have h2: "1 < nodes_count (components_of (Arr [card]))" by code_simp
  have h3: "0 < length ?ns" by simp
  have h4: "n_type label_props = ''TEXT'' \<and> truthy_str (n_textContent label_props)" by code_simp
  have h5: "createReactApp Inr Map.empty = Inr Map.empty \<and> createReactApp Inr ?fs' = Inr ?fs'"
    by (simp add: createReactApp_def)
  have w1: "fst (generateComponentCode_s Some (Arr [card]) ''Card''
          (snd (generateComponentCode_s Some (Arr [card]) ''Card'' empty_store))) =
     fst (generateComponentCode_s Some (Arr [card]) ''Card'' empty_store)"
    by (rule t[THEN conjunct2, THEN conjunct2, THEN conjunct1])
  note r4 = t[THEN conjunct2, THEN conjunct2, THEN conjunct2, THEN conjunct2]
  have w2: "fst (generateNodeComponent Some card 0 50 10 0) \<noteq> fst (generateNodeComponent Some card 0 50 10 1)"
    by (rule r4[THEN conjunct1, rule_format, OF h1])
  have w3: "str_includes (generateComponentCode Some (Arr [card]) ''Card'') (key_attr 1)"
    by (rule r4[THEN conjunct2, THEN conjunct2, THEN conjunct1, rule_format, OF h2])
  note r8 = u[THEN conjunct2, THEN conjunct2, THEN conjunct2, THEN conjunct2,
      THEN conjunct2, THEN conjunct2, THEN conjunct2, THEN conjunct2]
  have w4: "fst (generateNodeComponents Some ?ns 1 50 10 1) ! 0 =
     fst (generateNodeComponent Some (?ns ! 0) 1 50 10 (1 + nodes_count (take 0 ?ns)))"
    by (rule r8[THEN conjunct1, rule_format, OF h3])
  have w5: "str_includes (fst (generateNodeComponent Some (Node label_props None) 1 50 10 1))
     (replaceAll SQ [BS, SQ] (str_of (n_textContent label_props)))"
    by (rule r8[THEN conjunct2, THEN conjunct2, THEN conjunct2, THEN conjunct1, rule_format, OF h4])
  note v = compile_deterministic[where dec = Some and ns = "[card]" and k = 0 and c = 0]
  have h6: "0 < length [card]" by simp
  note w7 = v[THEN conjunct2, THEN conjunct2, THEN conjunct2, THEN conjunct2,
      THEN conjunct2, THEN conjunct2, THEN conjunct2, THEN conjunct2,
      THEN conjunct2, THEN conjunct2, THEN conjunct1, rule_format, OF h6]
  note r12 = t[THEN conjunct2, THEN conjunct2, THEN conjunct2, THEN conjunct2,
      THEN conjunct2, THEN conjunct2, THEN conjunct2, THEN conjunct2,
      THEN conjunct2, THEN conjunct2, THEN conjunct2, THEN conjunct2]
  note w6 = r12[THEN conjunct1, rule_format, OF h5]
  note ru12 = u[THEN conjunct2, THEN conjunct2, THEN conjunct2, THEN conjunct2,
      THEN conjunct2, THEN conjunct2, THEN conjunct2, THEN conjunct2,
      THEN conjunct2, THEN conjunct2, THEN conjunct2, THEN conjunct2]
  have h7: "truthy_bool (n_visible label_props) \<and> n_type label_props = ''TEXT''" by code_simp
  have h8: "children card = Some ?ns" by (simp add: card_def)
  note w8 = ru12[THEN conjunct2, THEN conjunct2, THEN conjunct2, THEN conjunct1,
      rule_format, OF h3]
  note w9 = ru12[THEN conjunct2, THEN conjunct2, THEN conjunct2, THEN conjunct2,
      THEN conjunct1, rule_format, OF h7]
  note w10 = r12[THEN conjunct2, THEN conjunct2, THEN conjunct2, THEN conjunct2,
      THEN conjunct2, THEN conjunct2, rule_format, OF h8]
  show ?thesis
    by (intro conjI) (rule w1 w2 w3 w4 w5 w7 w8 w9 w10 w6[THEN conjunct1]
        w6[THEN conjunct2, THEN conjunct1] w6[THEN conjunct2, THEN conjunct2])+
qed

text \<open>
  C9. A request without data is answered with status 400, and the file system is left as
  it was. A request whose data is the empty array is answered with success, and a
  component with an empty container is written.
\<close>

theorem empty_roots_accepted:
  "post_generate_component scaffold dec fs None =
     (Response 400 [(''error'', JString ''No data provided'')], fs) \<and>
   fst (post_generate_component scaffold dec (Map.empty(PROJECT_DIR \<mapsto> Dir)) (Some (Arr []))) =
     Response 200
       [(''success'', JBool True),
        (''message'', JString (''Component FigmaComponent generated successfully! Run '' @
           sq ''npm start'' @ '' in the react-app directory.'')),
        (''componentPath'', JString ''react-app/src/components/FigmaComponent.jsx'')] \<and>
   snd (post_generate_component scaffold dec (Map.empty(PROJECT_DIR \<mapsto> Dir)) (Some (Arr [])))
       ''react-app/src/components/FigmaComponent.jsx'' =
     Some (File (generateComponentCode dec (Arr []) ''FigmaComponent'')) \<and>
   generateComponentCode dec (Arr []) ''FigmaComponent'' =
     ''import React from '' @ sq ''react'' @ '';'' @ [NL] @
     ''import '' @ sq ''./FigmaComponent.css'' @ '';'' @ [NL] @ [NL] @
     ''const FigmaComponent = () => {'' @ [NL] @
     ''  return ('' @ [NL] @
     ''    <div className='' @ dq ''figmacomponent-container'' @ ''>'' @ [NL] @
     [NL] @
     ''    </div>'' @ [NL] @
     ''  );'' @ [NL] @
     ''};'' @ [NL] @ [NL] @
     ''export default FigmaComponent;'' @ [NL]"
proof -
  have cr: "createReactApp scaffold (Map.empty(PROJECT_DIR \<mapsto> Dir)) = Inr (Map.empty(PROJECT_DIR \<mapsto> Dir))"
    by (simp add: createReactApp_def directoryExists_def)
  have nm: "componentName_of (Arr []) = ''FigmaComponent''"
    by (simp add: componentName_of_def DEFAULT_COMPONENT_NAME_def)
  have pth: "componentPath_of (Arr []) = ''react-app/src/components/FigmaComponent.jsx''"
    by (simp add: componentPath_of_def nm COMPONENTS_DIR_def)
  have code: "generateComponentCode dec (Arr []) ''FigmaComponent'' =
     ''import React from '' @ sq ''react'' @ '';'' @ [NL] @
     ''import '' @ sq ''./FigmaComponent.css'' @ '';'' @ [NL] @ [NL] @
     ''const FigmaComponent = () => {'' @ [NL] @
     ''  return ('' @ [NL] @
     ''    <div className='' @ dq ''figmacomponent-container'' @ ''>'' @ [NL] @
     [NL] @
     ''    </div>'' @ [NL] @
     ''  );'' @ [NL] @
     ''};'' @ [NL] @ [NL] @
     ''export default FigmaComponent;'' @ [NL]"
    by code_simp
  show ?thesis
    using post_generate_component_ok[OF cr, of dec "Arr []"] code
    by (simp add: nm pth post_generate_component_def)
qed

end
